theory Spec2Isabelle
  imports Complex_Main "HOL-Library.Sublist"
begin

section \<open>JavaScript numbers\<close>

text \<open>
  The scoring code computes with JavaScript Numbers. Two of their features decide what
  the formulas return at the edge cases: a division by zero does not raise, it yields an
  infinity or NaN, and \<open>Math.min\<close>, \<open>Math.max\<close> and \<open>Math.round\<close> let NaN through.
  A Number is therefore modelled as a real, one of the two infinities, or NaN. The
  operators below are exact on finite numbers (no rounding of doubles, no signed zero)
  and follow IEEE 754, as ECMAScript prescribes, on the special values. The haversine
  lines of \<open>calculateDistance\<close>, where rounding decides whether a square root is
  NaN, are computed with the operations of a machine that is a parameter (next section).
\<close>

datatype jsnum = Num real | PosInf | NegInf | NaN

text \<open>The operator \<open>a / b\<close>.\<close>

fun jdiv :: "jsnum \<Rightarrow> jsnum \<Rightarrow> jsnum" where
  "jdiv NaN _ = NaN"
| "jdiv _ NaN = NaN"
| "jdiv (Num a) (Num b) =
     (if b \<noteq> 0 then Num (a / b)
      else if 0 < a then PosInf else if a < 0 then NegInf else NaN)"
| "jdiv (Num a) PosInf = Num 0"
| "jdiv (Num a) NegInf = Num 0"
| "jdiv PosInf (Num b) = (if 0 \<le> b then PosInf else NegInf)"
| "jdiv NegInf (Num b) = (if 0 \<le> b then NegInf else PosInf)"
| "jdiv PosInf PosInf = NaN"
| "jdiv PosInf NegInf = NaN"
| "jdiv NegInf PosInf = NaN"
| "jdiv NegInf NegInf = NaN"

text \<open>The operator \<open>a * b\<close>.\<close>

fun jmul :: "jsnum \<Rightarrow> jsnum \<Rightarrow> jsnum" where
  "jmul NaN _ = NaN"
| "jmul _ NaN = NaN"
| "jmul (Num a) (Num b) = Num (a * b)"
| "jmul (Num a) PosInf = (if 0 < a then PosInf else if a < 0 then NegInf else NaN)"
| "jmul (Num a) NegInf = (if 0 < a then NegInf else if a < 0 then PosInf else NaN)"
| "jmul PosInf (Num b) = (if 0 < b then PosInf else if b < 0 then NegInf else NaN)"
| "jmul NegInf (Num b) = (if 0 < b then NegInf else if b < 0 then PosInf else NaN)"
| "jmul PosInf PosInf = PosInf"
| "jmul PosInf NegInf = NegInf"
| "jmul NegInf PosInf = NegInf"
| "jmul NegInf NegInf = PosInf"

text \<open>The operators \<open>a + b\<close> and \<open>a - b\<close>.\<close>

fun jadd :: "jsnum \<Rightarrow> jsnum \<Rightarrow> jsnum" where
  "jadd NaN _ = NaN"
| "jadd _ NaN = NaN"
| "jadd (Num a) (Num b) = Num (a + b)"
| "jadd (Num a) PosInf = PosInf"
| "jadd (Num a) NegInf = NegInf"
| "jadd PosInf (Num b) = PosInf"
| "jadd NegInf (Num b) = NegInf"
| "jadd PosInf PosInf = PosInf"
| "jadd PosInf NegInf = NaN"
| "jadd NegInf PosInf = NaN"
| "jadd NegInf NegInf = NegInf"

fun jneg :: "jsnum \<Rightarrow> jsnum" where
  "jneg NaN = NaN"
| "jneg (Num a) = Num (- a)"
| "jneg PosInf = NegInf"
| "jneg NegInf = PosInf"

definition jsub :: "jsnum \<Rightarrow> jsnum \<Rightarrow> jsnum" where
  "jsub a b = jadd a (jneg b)"

text \<open>The comparison \<open>a > b\<close>: false as soon as one side is NaN.\<close>

fun jgt :: "jsnum \<Rightarrow> jsnum \<Rightarrow> bool" where
  "jgt NaN _ = False"
| "jgt _ NaN = False"
| "jgt (Num a) (Num b) = (b < a)"
| "jgt PosInf PosInf = False"
| "jgt PosInf _ = True"
| "jgt _ PosInf = False"
| "jgt NegInf _ = False"
| "jgt _ NegInf = True"

text \<open>The comparison \<open>a >= b\<close>.\<close>

fun jge :: "jsnum \<Rightarrow> jsnum \<Rightarrow> bool" where
  "jge NaN _ = False"
| "jge _ NaN = False"
| "jge a b = (\<not> jgt b a)"

text \<open>The comparison \<open>a <= b\<close>.\<close>

fun jle :: "jsnum \<Rightarrow> jsnum \<Rightarrow> bool" where
  "jle NaN _ = False"
| "jle _ NaN = False"
| "jle a b = (\<not> jgt a b)"

text \<open>\<open>Math.min\<close> and \<open>Math.max\<close> of two arguments: NaN as soon as one argument is NaN.\<close>

fun Math_min :: "jsnum \<Rightarrow> jsnum \<Rightarrow> jsnum" where
  "Math_min NaN _ = NaN"
| "Math_min _ NaN = NaN"
| "Math_min a b = (if jgt a b then b else a)"

fun Math_max :: "jsnum \<Rightarrow> jsnum \<Rightarrow> jsnum" where
  "Math_max NaN _ = NaN"
| "Math_max _ NaN = NaN"
| "Math_max a b = (if jgt b a then b else a)"

text \<open>\<open>Math.round\<close>: the nearest integer, halves upwards; NaN and the infinities unchanged.\<close>

fun Math_round :: "jsnum \<Rightarrow> jsnum" where
  "Math_round (Num a) = Num (of_int \<lfloor>a + 1 / 2\<rfloor>)"
| "Math_round x = x"

section \<open>GeoDistance: \<open>calculateDistance\<close> (utils/geocoder.js)\<close>

text \<open>
  The arithmetic of the machine that runs the haversine lines: its four operators, the
  four functions of \<open>Math\<close> that the lines call, and \<open>Math.PI\<close>. Nothing is
  assumed of them; what is proved for every machine holds for doubles.
\<close>

record machine =
  fl_add :: "jsnum \<Rightarrow> jsnum \<Rightarrow> jsnum"
  fl_sub :: "jsnum \<Rightarrow> jsnum \<Rightarrow> jsnum"
  fl_mul :: "jsnum \<Rightarrow> jsnum \<Rightarrow> jsnum"
  fl_div :: "jsnum \<Rightarrow> jsnum \<Rightarrow> jsnum"
  fl_sin :: "jsnum \<Rightarrow> jsnum"
  fl_cos :: "jsnum \<Rightarrow> jsnum"
  fl_sqrt :: "jsnum \<Rightarrow> jsnum"
  fl_atan2 :: "jsnum \<Rightarrow> jsnum \<Rightarrow> jsnum"
  fl_PI :: jsnum

definition deg2rad :: "machine \<Rightarrow> jsnum \<Rightarrow> jsnum" where
  "deg2rad M deg = fl_mul M deg (fl_div M (fl_PI M) (Num 180))"

text \<open>
  \<open>d.toFixed(2)\<close> read back by \<open>parseFloat\<close>. For a finite \<open>d\<close> below
  \<open>10^21\<close> in absolute value: the multiple of 0.01 nearest to \<open>d\<close>, the larger one
  when two are equally near, a negative number being rounded on its absolute value. From
  \<open>10^21\<close> on \<open>toFixed\<close> prints the number itself; NaN and the infinities print
  as their names and are read back unchanged. (The decimal is read back as the nearest
  double; the model keeps the decimal.)
\<close>

fun toFixed2 :: "jsnum \<Rightarrow> jsnum" where
  "toFixed2 (Num d) =
     (if 10 ^ 21 \<le> \<bar>d\<bar> then Num d
      else if d < 0 then Num (- (of_int \<lfloor>(- d) * 100 + 1 / 2\<rfloor> / 100))
      else Num (of_int \<lfloor>d * 100 + 1 / 2\<rfloor> / 100))"
| "toFixed2 x = x"

text \<open>The haversine term \<open>a\<close> of \<open>calculateDistance\<close>.\<close>

definition haversine_a :: "machine \<Rightarrow> real \<Rightarrow> real \<Rightarrow> real \<Rightarrow> real \<Rightarrow> jsnum" where
  "haversine_a M lat1 lon1 lat2 lon2 =
     (let dLat = deg2rad M (fl_sub M (Num lat2) (Num lat1));
          dLon = deg2rad M (fl_sub M (Num lon2) (Num lon1))
      in fl_add M
           (fl_mul M (fl_sin M (fl_div M dLat (Num 2))) (fl_sin M (fl_div M dLat (Num 2))))
           (fl_mul M
              (fl_mul M
                 (fl_mul M (fl_cos M (deg2rad M (Num lat1))) (fl_cos M (deg2rad M (Num lat2))))
                 (fl_sin M (fl_div M dLon (Num 2))))
              (fl_sin M (fl_div M dLon (Num 2)))))"

text \<open>The local \<open>d\<close> of \<open>calculateDistance\<close>: the distance in km before it is rounded.\<close>

definition haversine_d :: "machine \<Rightarrow> real \<Rightarrow> real \<Rightarrow> real \<Rightarrow> real \<Rightarrow> jsnum" where
  "haversine_d M lat1 lon1 lat2 lon2 =
     (let R = Num 6371;
          a = haversine_a M lat1 lon1 lat2 lon2;
          c = fl_mul M (Num 2)
                (fl_atan2 M (fl_sqrt M a) (fl_sqrt M (fl_sub M (Num 1) a)))
      in fl_mul M R c)"

text \<open>
  \<open>calculateDistance(lat1, lon1, lat2, lon2)\<close>, the form with four numbers that the
  matching functions call: it returns \<open>parseFloat(d.toFixed(2))\<close>.
\<close>

definition calculateDistance :: "machine \<Rightarrow> real \<Rightarrow> real \<Rightarrow> real \<Rightarrow> real \<Rightarrow> jsnum" where
  "calculateDistance M lat1 lon1 lat2 lon2 = toFixed2 (haversine_d M lat1 lon1 lat2 lon2)"

text \<open>
  The machine of exact arithmetic, for the examples: the operators of the first section,
  and \<open>Math.sin\<close>, \<open>Math.cos\<close>, \<open>Math.sqrt\<close> and \<open>Math.atan2\<close> with their
  values at NaN, at the infinities and (for the square root) below zero.
\<close>

fun Math_sin :: "jsnum \<Rightarrow> jsnum" where
  "Math_sin (Num x) = Num (sin x)"
| "Math_sin _ = NaN"

fun Math_cos :: "jsnum \<Rightarrow> jsnum" where
  "Math_cos (Num x) = Num (cos x)"
| "Math_cos _ = NaN"

fun Math_sqrt :: "jsnum \<Rightarrow> jsnum" where
  "Math_sqrt (Num x) = (if x < 0 then NaN else Num (sqrt x))"
| "Math_sqrt PosInf = PosInf"
| "Math_sqrt _ = NaN"

text \<open>
  \<open>Math.atan2(y, x)\<close> on finite arguments, by the quadrant of \<open>(x, y)\<close>;
  \<open>Math.atan2(0, 0)\<close> is 0.
\<close>

definition atan2_real :: "real \<Rightarrow> real \<Rightarrow> real" where
  "atan2_real y x =
     (if 0 < x then arctan (y / x)
      else if x < 0 then (if 0 \<le> y then arctan (y / x) + pi else arctan (y / x) - pi)
      else if 0 < y then pi / 2
      else if y < 0 then - (pi / 2)
      else 0)"

fun Math_atan2 :: "jsnum \<Rightarrow> jsnum \<Rightarrow> jsnum" where
  "Math_atan2 NaN _ = NaN"
| "Math_atan2 _ NaN = NaN"
| "Math_atan2 (Num y) (Num x) = Num (atan2_real y x)"
| "Math_atan2 (Num y) PosInf = Num 0"
| "Math_atan2 (Num y) NegInf = (if 0 \<le> y then Num pi else Num (- pi))"
| "Math_atan2 PosInf (Num x) = Num (pi / 2)"
| "Math_atan2 NegInf (Num x) = Num (- (pi / 2))"
| "Math_atan2 PosInf PosInf = Num (pi / 4)"
| "Math_atan2 PosInf NegInf = Num (3 * pi / 4)"
| "Math_atan2 NegInf PosInf = Num (- (pi / 4))"
| "Math_atan2 NegInf NegInf = Num (- (3 * pi / 4))"

definition exact :: machine where
  "exact = \<lparr>fl_add = jadd, fl_sub = jsub, fl_mul = jmul, fl_div = jdiv,
            fl_sin = Math_sin, fl_cos = Math_cos, fl_sqrt = Math_sqrt,
            fl_atan2 = Math_atan2, fl_PI = Num pi\<rparr>"

section \<open>Data model (models/Emergency.js, models/Resource.js)\<close>

text \<open>
  An id is the hexadecimal string of an ObjectId. A stored document has such an id; the
  objects that the matching functions accept may have any string as \<open>_id\<close>, or none.
\<close>

type_synonym objectId = string

datatype matchStatus = Pending | Accepted | Rejected | Delivered

text \<open>An entry of \<open>Emergency.matchedResources\<close>.\<close>

record matchedResource =
  mr_resource :: "objectId option"
  mr_status :: matchStatus
  mr_matchScore :: jsnum

text \<open>An entry of \<open>Resource.matchedEmergencies\<close>.\<close>

record matchedEmergency =
  me_emergency :: "objectId option"
  me_status :: matchStatus
  me_matchScore :: jsnum

record neededResource =
  n_type :: string
  n_quantity :: real
  n_fulfilled :: bool

text \<open>
  The fields of an emergency and of a resource that matching and the match life cycle
  read, write or validate. \<open>_id\<close> is \<open>None\<close> for an object without one (the matching
  functions test \<open>resource._id === undefined\<close>). \<open>location\<close> holds
  \<open>coordinates = [longitude, latitude]\<close> and is \<open>None\<close> when the object has no
  location; \<open>address\<close> is \<open>None\<close> when the object has no address.

  \<open>quantity\<close> is a Number. The matching functions read \<open>emergency.quantity\<close>,
  which the schema of an emergency does not declare: an object without the property gives
  \<open>undefined\<close> there, and each use of it (a division, \<open><=\<close>, \<open>Math.min\<close>)
  treats \<open>undefined\<close> as NaN. An absent quantity is therefore NaN in the model.
\<close>

record emergency =
  e_id :: "objectId option"
  e_title :: string
  e_type :: string
  e_status :: string
  e_urgency :: string
  e_quantity :: jsnum
  e_address :: "string option"
  e_location :: "(real \<times> real) option"
  e_resourcesNeeded :: "neededResource list"
  e_user :: objectId
  e_assignedTo :: "objectId option"
  e_matchedResources :: "matchedResource list"

record resource =
  r_id :: "objectId option"
  r_name :: string
  r_type :: string
  r_status :: string
  r_quantity :: jsnum
  r_address :: "string option"
  r_location :: "(real \<times> real) option"
  r_user :: objectId
  r_assignedTo :: "objectId option"
  r_matchedEmergencies :: "matchedEmergency list"

section \<open>ScoringEngine and MatchEngine (utils/matchingAlgorithm.js)\<close>

text \<open>The entries of the two ranked lists.\<close>

record resourceMatch =
  m_resource :: resource
  m_distance :: jsnum
  m_matchScore :: jsnum

record emergencyMatch =
  em_emergency :: emergency
  em_distance :: jsnum
  em_matchScore :: jsnum

text \<open>
  \<open>Array.prototype.sort(compare)\<close>. The sort is stable, and a comparator result that
  is NaN counts as 0. With a consistent comparator every stable sort returns the same
  array, so the sort is modelled by insertion from the right: an element moves behind
  exactly those elements it compares greater than.
\<close>

fun insertBy :: "('a \<Rightarrow> 'a \<Rightarrow> jsnum) \<Rightarrow> 'a \<Rightarrow> 'a list \<Rightarrow> 'a list" where
  "insertBy compare x [] = [x]"
| "insertBy compare x (y # ys) =
     (if jgt (compare x y) (Num 0) then y # insertBy compare x ys else x # y # ys)"

definition Array_sort :: "('a \<Rightarrow> 'a \<Rightarrow> jsnum) \<Rightarrow> 'a list \<Rightarrow> 'a list" where
  "Array_sort compare xs = foldr (insertBy compare) xs []"

text \<open>
  What a function throws: a TypeError on reading a property of \<open>undefined\<close> or
  \<open>null\<close>, and the ValidationError with which mongoose rejects a document.
  \<open>xs.map(f)\<close> inside a \<open>try\<close> block, for an \<open>f\<close> that may throw: the first
  exception ends the whole map.
\<close>

datatype jsError = TypeError | ValidationError

fun mapThrowing :: "('a \<Rightarrow> jsError + 'b) \<Rightarrow> 'a list \<Rightarrow> jsError + 'b list" where
  "mapThrowing f [] = Inr []"
| "mapThrowing f (x # xs) =
     (case f x of
        Inl err \<Rightarrow> Inl err
      | Inr y \<Rightarrow> (case mapThrowing f xs of Inl err \<Rightarrow> Inl err | Inr ys \<Rightarrow> Inr (y # ys)))"

text \<open>\<open>x || 0\<close> on a Number: 0 when \<open>x\<close> is 0 or NaN, else \<open>x\<close>.\<close>

fun orZero :: "jsnum \<Rightarrow> jsnum" where
  "orZero NaN = Num 0"
| "orZero (Num x) = (if x = 0 then Num 0 else Num x)"
| "orZero x = x"

text \<open>
  The three score terms, as the two matching functions write them inline:
  \<open>Math.max(0, Math.min(100, 100 * (1 - (distance / maxDistance))))\<close>,
  \<open>Math.max(0, Math.min(100, 100 * (numerator / denominator)))\<close>, and
  \<open>getUrgencyScore\<close> (a key that the table lacks gives \<open>undefined || 0\<close>; keys
  inherited from \<open>Object.prototype\<close> are not modelled).
\<close>

definition distanceScore :: "jsnum \<Rightarrow> real \<Rightarrow> jsnum" where
  "distanceScore distance maxDistance =
     Math_max (Num 0) (Math_min (Num 100)
       (jmul (Num 100) (jsub (Num 1) (jdiv distance (Num maxDistance)))))"

definition quantityScore :: "jsnum \<Rightarrow> jsnum \<Rightarrow> jsnum" where
  "quantityScore numerator denominator =
     Math_max (Num 0) (Math_min (Num 100)
       (jmul (Num 100) (jdiv numerator denominator)))"

definition getUrgencyScore :: "string \<Rightarrow> jsnum" where
  "getUrgencyScore urgency =
     (if urgency = ''critical'' then Num 100
      else if urgency = ''high'' then Num 75
      else if urgency = ''medium'' then Num 50
      else if urgency = ''low'' then Num 25
      else Num 0)"

text \<open>
  \<open>const distance = calculateDistance(...) || 0\<close>, the same in both matching
  functions: latitude is \<open>coordinates[1]\<close>, longitude \<open>coordinates[0]\<close>, the
  emergency comes first. Reading \<open>coordinates\<close> of a missing location throws a TypeError.
\<close>

definition candidateDistance :: "machine \<Rightarrow> emergency \<Rightarrow> resource \<Rightarrow> jsError + jsnum" where
  "candidateDistance M emergency resource =
     (case (e_location emergency, r_location resource) of
        (Some (elon, elat), Some (rlon, rlat)) \<Rightarrow>
          Inr (orZero (calculateDistance M elat elon rlat rlon))
      | _ \<Rightarrow> Inl TypeError)"

text \<open>
  The callback of \<open>matchingResources.map\<close> in \<open>matchResourcesToEmergency\<close>: the two
  fixed entries for the ids \<open>resource1\<close> and \<open>resource2\<close>, else the distance, the
  cut-off (\<open>null\<close> is \<open>None\<close>) and the score.
\<close>

definition scoreResource ::
  "machine \<Rightarrow> emergency \<Rightarrow> real \<Rightarrow> resource \<Rightarrow> jsError + resourceMatch option" where
  "scoreResource M emergency maxDistance resource =
     (if r_id resource = Some ''resource1'' then
        Inr (Some \<lparr>m_resource = resource, m_distance = Num 0, m_matchScore = Num 80\<rparr>)
      else if r_id resource = Some ''resource2'' then
        Inr (Some \<lparr>m_resource = resource, m_distance = Num 10, m_matchScore = Num 60\<rparr>)
      else
        (case candidateDistance M emergency resource of
           Inl err \<Rightarrow> Inl err
         | Inr distance \<Rightarrow>
             if jgt distance (Num maxDistance) then Inr None
             else
               (let dScore = distanceScore distance maxDistance;
                    qScore = quantityScore (r_quantity resource) (e_quantity emergency);
                    matchScore = Math_round (jadd (jmul dScore (Num (6 / 10)))
                                                  (jmul qScore (Num (4 / 10))))
                in Inr (Some \<lparr>m_resource = resource, m_distance = distance,
                              m_matchScore = matchScore\<rparr>))))"

text \<open>The comparator \<open>(a, b) => b.matchScore - a.matchScore\<close>, for each kind of entry.\<close>

definition compareResourceMatch :: "resourceMatch \<Rightarrow> resourceMatch \<Rightarrow> jsnum" where
  "compareResourceMatch a b = jsub (m_matchScore b) (m_matchScore a)"

definition compareEmergencyMatch :: "emergencyMatch \<Rightarrow> emergencyMatch \<Rightarrow> jsnum" where
  "compareEmergencyMatch a b = jsub (em_matchScore b) (em_matchScore a)"

text \<open>
  The pool after the filter by type and status, and the array \<open>matches\<close> before it is
  sorted: \<open>None\<close> when a callback threw, which the \<open>catch\<close> turns into \<open>[]\<close>.
\<close>

definition matchingResources :: "emergency \<Rightarrow> resource list \<Rightarrow> resource list" where
  "matchingResources emergency resources =
     filter (\<lambda>resource. r_type resource = e_type emergency \<and> r_status resource = ''available'')
       resources"

definition resourceMatches ::
  "machine \<Rightarrow> emergency \<Rightarrow> resource list \<Rightarrow> real \<Rightarrow> resourceMatch list option" where
  "resourceMatches M emergency resources maxDistance =
     (case mapThrowing (scoreResource M emergency maxDistance)
             (matchingResources emergency resources) of
        Inl err \<Rightarrow> None
      | Inr ms \<Rightarrow> Some (List.map_filter (\<lambda>m. m) ms))"

definition matchResourcesToEmergency ::
  "machine \<Rightarrow> emergency \<Rightarrow> resource list \<Rightarrow> real \<Rightarrow> resourceMatch list" where
  "matchResourcesToEmergency M emergency resources maxDistance =
     (if e_location emergency = Some (100, 100) then []
      else
        (case resourceMatches M emergency resources maxDistance of
           None \<Rightarrow> []
         | Some matches \<Rightarrow> Array_sort compareResourceMatch matches))"

text \<open>The callback of \<open>matchingEmergencies.map\<close> in \<open>matchEmergenciesToResource\<close>.\<close>

definition scoreEmergency ::
  "machine \<Rightarrow> resource \<Rightarrow> real \<Rightarrow> emergency \<Rightarrow> jsError + emergencyMatch option" where
  "scoreEmergency M resource maxDistance emergency =
     (case candidateDistance M emergency resource of
        Inl err \<Rightarrow> Inl err
      | Inr distance \<Rightarrow>
          if jgt distance (Num maxDistance) then Inr None
          else
            (let dScore = distanceScore distance maxDistance;
                 urgencyScore = getUrgencyScore (e_urgency emergency);
                 qScore = quantityScore (e_quantity emergency) (r_quantity resource);
                 matchScore = Math_round
                   (jadd (jadd (jmul dScore (Num (4 / 10))) (jmul urgencyScore (Num (4 / 10))))
                         (jmul qScore (Num (2 / 10))))
             in Inr (Some \<lparr>em_emergency = emergency, em_distance = distance,
                           em_matchScore = matchScore\<rparr>)))"

definition matchingEmergencies :: "resource \<Rightarrow> emergency list \<Rightarrow> emergency list" where
  "matchingEmergencies resource emergencies =
     filter (\<lambda>emergency. e_type emergency = r_type resource \<and> e_status emergency = ''active'' \<and>
                          jle (e_quantity emergency) (r_quantity resource))
       emergencies"

definition emergencyMatches ::
  "machine \<Rightarrow> resource \<Rightarrow> emergency list \<Rightarrow> real \<Rightarrow> emergencyMatch list option" where
  "emergencyMatches M resource emergencies maxDistance =
     (case mapThrowing (scoreEmergency M resource maxDistance)
             (matchingEmergencies resource emergencies) of
        Inl err \<Rightarrow> None
      | Inr ms \<Rightarrow> Some (List.map_filter (\<lambda>m. m) ms))"

text \<open>
  The test of the first branch of \<open>matchEmergenciesToResource\<close>: a resource without
  \<open>_id\<close> and a non-empty pool whose first emergency has the id \<open>emergency1\<close>. The
  branch returns one entry, for \<open>emergencies[0]\<close> (\<open>hd\<close>, of a non-empty list there).
\<close>

definition mockBranch :: "resource \<Rightarrow> emergency list \<Rightarrow> bool" where
  "mockBranch resource emergencies =
     (case emergencies of
        [] \<Rightarrow> False
      | e0 # _ \<Rightarrow> r_id resource = None \<and> e_id e0 = Some ''emergency1'')"

definition matchEmergenciesToResource ::
  "machine \<Rightarrow> resource \<Rightarrow> emergency list \<Rightarrow> real \<Rightarrow> emergencyMatch list" where
  "matchEmergenciesToResource M resource emergencies maxDistance =
     (if mockBranch resource emergencies then
        [\<lparr>em_emergency = (hd emergencies)
            \<lparr>e_quantity := Math_min (e_quantity (hd emergencies)) (r_quantity resource)\<rparr>,
          em_distance = Num 0, em_matchScore = Num 80\<rparr>]
      else
        (case emergencyMatches M resource emergencies maxDistance of
           None \<Rightarrow> []
         | Some matches \<Rightarrow> Array_sort compareEmergencyMatch matches))"

section \<open>The store and its validation (mongoose schemas)\<close>

text \<open>
  The store collaborator: the two collections and the notifications created so far.
  \<open>save\<close> and \<open>create\<close> validate the document against its schema first and
  reject it with a ValidationError: enumerations, required paths, bounds, and a number
  path that holds NaN. Of the paths with a validator the model has those that the
  handlers read or write and those that a stored value can fail: the \<open>address\<close> of
  a resource is required, and the hook that geocodes a new resource removes it before
  the resource is written, so that a resource has an address only once an update
  (\<open>findByIdAndUpdate\<close>, which runs no hook) has written one. The
  \<open>description\<close> (required, never read or removed) is not modelled. The model
  validates every modelled path on each \<open>save\<close>; mongoose validates the required and
  the modified ones, which is the same for a document that passed validation when it
  was written. The \<open>pre('save')\<close> hooks return at once when \<open>address\<close> is not
  modified, as in every handler below.
\<close>

record notification =
  nt_type :: string
  nt_title :: string
  nt_user :: objectId
  nt_emergency :: "objectId option"
  nt_resource :: "objectId option"

record store =
  emergencies :: "emergency list"
  resources :: "resource list"
  notifications :: "notification list"

text \<open>A \<open>matchScore\<close> that mongoose accepts: a number (not NaN) from 0 to 100.\<close>

fun validScore :: "jsnum \<Rightarrow> bool" where
  "validScore (Num x) = (0 \<le> x \<and> x \<le> 100)"
| "validScore _ = False"

definition emergencyTypes :: "string list" where
  "emergencyTypes = [''medical'', ''fire'', ''flood'', ''earthquake'', ''hurricane'',
     ''tornado'', ''tsunami'', ''landslide'', ''shelter'', ''other'']"

definition emergencyStatuses :: "string list" where
  "emergencyStatuses = [''pending'', ''active'', ''resolved'', ''cancelled'']"

definition urgencies :: "string list" where
  "urgencies = [''low'', ''medium'', ''high'', ''critical'']"

definition resourceTypes :: "string list" where
  "resourceTypes = [''water'', ''food'', ''medical'', ''shelter'', ''clothing'',
     ''transport'', ''volunteers'', ''other'']"

definition resourceStatuses :: "string list" where
  "resourceStatuses = [''available'', ''reserved'', ''in-transit'', ''delivered'',
     ''cancelled'', ''allocated'']"

definition notificationTypes :: "string list" where
  "notificationTypes = [''emergency_created'', ''emergency_updated'', ''emergency_resolved'',
     ''resource_matched'', ''match_accepted'', ''match_rejected'', ''assignment'', ''system'']"

text \<open>
  \<open>EmergencySchema\<close>: \<open>address\<close> is required only while there is no
  \<open>location.coordinates\<close>.
\<close>

definition Emergency_validate :: "emergency \<Rightarrow> bool" where
  "Emergency_validate e =
     (e_title e \<noteq> [] \<and> length (e_title e) \<le> 100 \<and>
      e_type e \<in> set emergencyTypes \<and>
      e_status e \<in> set emergencyStatuses \<and>
      e_urgency e \<in> set urgencies \<and>
      (case e_location e of None \<Rightarrow> e_address e \<noteq> None | Some c \<Rightarrow> True) \<and>
      list_all (\<lambda>need. n_type need \<in> set resourceTypes) (e_resourcesNeeded e) \<and>
      list_all (\<lambda>match. validScore (mr_matchScore match)) (e_matchedResources e))"

text \<open>\<open>ResourceSchema\<close>: \<open>address\<close> is required, \<open>quantity\<close> is at least 1.\<close>

definition Resource_validate :: "resource \<Rightarrow> bool" where
  "Resource_validate r =
     (r_name r \<noteq> [] \<and> length (r_name r) \<le> 100 \<and>
      r_type r \<in> set resourceTypes \<and>
      (case r_quantity r of Num q \<Rightarrow> 1 \<le> q | _ \<Rightarrow> False) \<and>
      r_status r \<in> set resourceStatuses \<and>
      r_address r \<noteq> None \<and>
      list_all (\<lambda>match. validScore (me_matchScore match)) (r_matchedEmergencies r))"

text \<open>
  \<open>NotificationSchema\<close>. The \<open>message\<close> (required, at most 500 characters) is the
  fixed text around the resource's name and the emergency's title, both at most 100
  characters once their documents were saved; it is not modelled.
\<close>

definition Notification_validate :: "notification \<Rightarrow> bool" where
  "Notification_validate n =
     (nt_type n \<in> set notificationTypes \<and> nt_title n \<noteq> [] \<and> length (nt_title n) \<le> 100)"

text \<open>
  A document read from the \<open>Emergency\<close> collection has the paths of its schema only:
  it has no \<open>quantity\<close>.
\<close>

definition Emergency_hydrate :: "emergency \<Rightarrow> emergency" where
  "Emergency_hydrate e = e\<lparr>e_quantity := NaN\<rparr>"

text \<open>
  \<open>findById\<close> returns the first document with the id (the id of the request is taken
  to be one that casts to an ObjectId). \<open>save\<close> validates the document and then
  replaces the stored document that has its id; \<open>create\<close> validates the notification
  and then adds it.
\<close>

definition Emergency_findById :: "objectId \<Rightarrow> store \<Rightarrow> emergency option" where
  "Emergency_findById oid s =
     map_option Emergency_hydrate (find (\<lambda>e. e_id e = Some oid) (emergencies s))"

definition Resource_findById :: "objectId \<Rightarrow> store \<Rightarrow> resource option" where
  "Resource_findById oid s = find (\<lambda>r. r_id r = Some oid) (resources s)"

definition replaceEmergency :: "emergency \<Rightarrow> store \<Rightarrow> store" where
  "replaceEmergency e s =
     s\<lparr>emergencies := map (\<lambda>x. if e_id x = e_id e then e else x) (emergencies s)\<rparr>"

definition replaceResource :: "resource \<Rightarrow> store \<Rightarrow> store" where
  "replaceResource r s =
     s\<lparr>resources := map (\<lambda>x. if r_id x = r_id r then r else x) (resources s)\<rparr>"

definition emergency_save :: "emergency \<Rightarrow> store \<Rightarrow> jsError + store" where
  "emergency_save e s =
     (if Emergency_validate e then Inr (replaceEmergency e s) else Inl ValidationError)"

definition resource_save :: "resource \<Rightarrow> store \<Rightarrow> jsError + store" where
  "resource_save r s =
     (if Resource_validate r then Inr (replaceResource r s) else Inl ValidationError)"

definition Notification_create :: "notification \<Rightarrow> store \<Rightarrow> jsError + store" where
  "Notification_create n s =
     (if Notification_validate n
      then Inr (s\<lparr>notifications := notifications s @ [n]\<rparr>)
      else Inl ValidationError)"

section \<open>MatchStateMachine (controllers/emergencyController.js, controllers/resourceController.js)\<close>

text \<open>\<open>req.user\<close>.\<close>

record reqUser =
  u_id :: objectId
  u_role :: string

text \<open>
  How a handler ends: with its 200 response, with \<open>next(new ErrorResponse(message, code))\<close>
  (or an \<open>AppError\<close> with that code), or with an exception, which \<open>asyncHandler\<close>
  passes on: a TypeError thrown on a \<open>null\<close> or \<open>undefined\<close> value, or the
  ValidationError of a rejected \<open>save\<close> or \<open>create\<close>. A handler returns how it
  ended and the store it leaves: what was saved before an exception stays saved.
\<close>

datatype error = ErrorResponse nat | Thrown jsError

datatype outcome = Ok | Failed error

text \<open>
  \<open>list.find(match => match.ref.toString() === id)\<close>: the first entry whose reference
  is the id sought; an entry before it that has no reference throws a TypeError. \<open>updateFirst\<close>
  is the assignment to a field of the entry found, which changes it in the list.
\<close>

fun findByRef :: "('a \<Rightarrow> objectId option) \<Rightarrow> objectId \<Rightarrow> 'a list \<Rightarrow> jsError + 'a option" where
  "findByRef ref oid [] = Inr None"
| "findByRef ref oid (x # xs) =
     (case ref x of
        None \<Rightarrow> Inl TypeError
      | Some i \<Rightarrow> if i = oid then Inr (Some x) else findByRef ref oid xs)"

fun updateFirst :: "('a \<Rightarrow> bool) \<Rightarrow> ('a \<Rightarrow> 'a) \<Rightarrow> 'a list \<Rightarrow> 'a list" where
  "updateFirst P f [] = []"
| "updateFirst P f (x # xs) = (if P x then f x # xs else x # updateFirst P f xs)"

text \<open>
  The authorisation test that the handlers share: the request fails with 401 when the
  user is not the owner, not the assigned volunteer and not an admin.
\<close>

definition notAuthorized :: "reqUser \<Rightarrow> objectId \<Rightarrow> objectId option \<Rightarrow> bool" where
  "notAuthorized user owner assignedTo =
     (owner \<noteq> u_id user \<and> (assignedTo = None \<or> assignedTo \<noteq> Some (u_id user)) \<and>
      u_role user \<noteq> ''admin'')"

text \<open>
  \<open>matchResourcesForEmergency\<close>: GET /emergencies/:id/match. The emergency it ranks
  for is the stored document, which has no \<open>quantity\<close>.
\<close>

definition matchResourcesForEmergency ::
  "machine \<Rightarrow> objectId \<Rightarrow> reqUser \<Rightarrow> store \<Rightarrow> outcome \<times> store" where
  "matchResourcesForEmergency M emergencyId user s =
     (case Emergency_findById emergencyId s of
        None \<Rightarrow> (Failed (ErrorResponse 404), s)
      | Some emergency \<Rightarrow>
          if notAuthorized user (e_user emergency) (e_assignedTo emergency)
          then (Failed (ErrorResponse 401), s)
          else
            (let availableResources = filter (\<lambda>r. r_status r = ''available'') (resources s);
                 matches = matchResourcesToEmergency M emergency availableResources 50;
                 emergency' = emergency\<lparr>e_matchedResources :=
                   map (\<lambda>match. \<lparr>mr_resource = r_id (m_resource match), mr_status = Pending,
                                  mr_matchScore = m_matchScore match\<rparr>) matches\<rparr>
             in case emergency_save emergency' s of
                  Inl err \<Rightarrow> (Failed (Thrown err), s)
                | Inr s1 \<Rightarrow> (Ok, s1)))"

text \<open>
  \<open>matchEmergenciesForResource\<close>: GET /resources/:id/match. The emergencies of the
  pool are stored documents.
\<close>

definition matchEmergenciesForResource ::
  "machine \<Rightarrow> objectId \<Rightarrow> reqUser \<Rightarrow> store \<Rightarrow> outcome \<times> store" where
  "matchEmergenciesForResource M resourceId user s =
     (case Resource_findById resourceId s of
        None \<Rightarrow> (Failed (ErrorResponse 404), s)
      | Some resource \<Rightarrow>
          if notAuthorized user (r_user resource) (r_assignedTo resource)
          then (Failed (ErrorResponse 401), s)
          else
            (let activeEmergencies =
                   map Emergency_hydrate (filter (\<lambda>e. e_status e = ''active'') (emergencies s));
                 matches = matchEmergenciesToResource M resource activeEmergencies 50;
                 resource' = resource\<lparr>r_matchedEmergencies :=
                   map (\<lambda>match. \<lparr>me_emergency = e_id (em_emergency match), me_status = Pending,
                                  me_matchScore = em_matchScore match\<rparr>) matches\<rparr>
             in case resource_save resource' s of
                  Inl err \<Rightarrow> (Failed (Thrown err), s)
                | Inr s1 \<Rightarrow> (Ok, s1)))"

text \<open>
  \<open>updateMatchStatus\<close>: PUT /emergencies/:id/match/:resourceId with
  \<open>req.body.action\<close>. The emergency is saved before the resource is looked up and
  saved, and the resource before the notification is created.
\<close>

definition updateMatchStatus ::
  "objectId \<Rightarrow> objectId \<Rightarrow> string \<Rightarrow> reqUser \<Rightarrow> store \<Rightarrow> outcome \<times> store" where
  "updateMatchStatus emergencyId resourceId action user s =
     (if action \<noteq> ''accept'' \<and> action \<noteq> ''reject'' then (Failed (ErrorResponse 400), s)
      else
        (case Emergency_findById emergencyId s of
           None \<Rightarrow> (Failed (ErrorResponse 404), s)
         | Some emergency \<Rightarrow>
             if notAuthorized user (e_user emergency) (e_assignedTo emergency)
             then (Failed (ErrorResponse 401), s)
             else
               (case findByRef mr_resource resourceId (e_matchedResources emergency) of
                  Inl err \<Rightarrow> (Failed (Thrown err), s)
                | Inr None \<Rightarrow> (Failed (ErrorResponse 404), s)
                | Inr (Some resourceMatch) \<Rightarrow>
                    (let newStatus = (if action = ''accept'' then Accepted else Rejected);
                         emergency' = emergency\<lparr>e_matchedResources :=
                           updateFirst (\<lambda>match. mr_resource match = Some resourceId)
                             (\<lambda>match. match\<lparr>mr_status := newStatus\<rparr>)
                             (e_matchedResources emergency)\<rparr>
                     in case emergency_save emergency' s of
                          Inl err \<Rightarrow> (Failed (Thrown err), s)
                        | Inr s1 \<Rightarrow>
                            if action = ''accept'' then
                              (case Resource_findById resourceId s1 of
                                 None \<Rightarrow> (Failed (Thrown TypeError), s1)
                               | Some resource \<Rightarrow>
                                   (let resource' = resource
                                          \<lparr>r_status := ''reserved'',
                                           r_matchedEmergencies := r_matchedEmergencies resource @
                                             [\<lparr>me_emergency = e_id emergency, me_status = Accepted,
                                               me_matchScore = mr_matchScore resourceMatch\<rparr>]\<rparr>
                                    in case resource_save resource' s1 of
                                         Inl err \<Rightarrow> (Failed (Thrown err), s1)
                                       | Inr s2 \<Rightarrow>
                                           (case Notification_create
                                                   \<lparr>nt_type = ''match_accepted'',
                                                    nt_title = ''Resource Match Accepted'',
                                                    nt_user = r_user resource,
                                                    nt_emergency = e_id emergency,
                                                    nt_resource = r_id resource\<rparr> s2 of
                                              Inl err \<Rightarrow> (Failed (Thrown err), s2)
                                            | Inr s3 \<Rightarrow> (Ok, s3))))
                            else (Ok, s1)))))"

text \<open>
  \<open>markResourceDelivered\<close>: PUT /resources/:id/deliver/:emergencyId. The resource is
  saved before the emergency is looked up and saved; the notification, of the type
  \<open>resource_delivered\<close>, is created last, before the response.
\<close>

definition markResourceDelivered ::
  "objectId \<Rightarrow> objectId \<Rightarrow> reqUser \<Rightarrow> store \<Rightarrow> outcome \<times> store" where
  "markResourceDelivered resourceId emergencyId user s =
     (case Resource_findById resourceId s of
        None \<Rightarrow> (Failed (ErrorResponse 404), s)
      | Some resource \<Rightarrow>
          if notAuthorized user (r_user resource) (r_assignedTo resource)
          then (Failed (ErrorResponse 401), s)
          else
            (case findByRef me_emergency emergencyId (r_matchedEmergencies resource) of
               Inl err \<Rightarrow> (Failed (Thrown err), s)
             | Inr None \<Rightarrow> (Failed (ErrorResponse 404), s)
             | Inr (Some emergencyMatch) \<Rightarrow>
                 if me_status emergencyMatch \<noteq> Accepted then (Failed (ErrorResponse 404), s)
                 else
                   (let resource' = resource
                          \<lparr>r_status := ''delivered'',
                           r_matchedEmergencies :=
                             updateFirst (\<lambda>match. me_emergency match = Some emergencyId)
                               (\<lambda>match. match\<lparr>me_status := Delivered\<rparr>)
                               (r_matchedEmergencies resource)\<rparr>
                    in case resource_save resource' s of
                         Inl err \<Rightarrow> (Failed (Thrown err), s)
                       | Inr s1 \<Rightarrow>
                           (case Emergency_findById emergencyId s1 of
                              None \<Rightarrow> (Failed (Thrown TypeError), s1)
                            | Some emergency \<Rightarrow>
                                (case findByRef mr_resource resourceId
                                        (e_matchedResources emergency) of
                                   Inl err \<Rightarrow> (Failed (Thrown err), s1)
                                 | Inr found \<Rightarrow>
                                     (case (case found of
                                              None \<Rightarrow> Inr s1
                                            | Some resourceMatch \<Rightarrow>
                                                emergency_save
                                                  (emergency
                                                     \<lparr>e_resourcesNeeded :=
                                                        updateFirst
                                                          (\<lambda>need. n_type need = r_type resource \<and>
                                                                   \<not> n_fulfilled need)
                                                          (\<lambda>need. need\<lparr>n_fulfilled := True\<rparr>)
                                                          (e_resourcesNeeded emergency),
                                                      e_matchedResources :=
                                                        updateFirst
                                                          (\<lambda>match. mr_resource match = Some resourceId)
                                                          (\<lambda>match. match\<lparr>mr_status := Delivered\<rparr>)
                                                          (e_matchedResources emergency)\<rparr>) s1) of
                                        Inl err \<Rightarrow> (Failed (Thrown err), s1)
                                      | Inr s2 \<Rightarrow>
                                          (case Notification_create
                                                  \<lparr>nt_type = ''resource_delivered'',
                                                   nt_title = ''Resource Delivered'',
                                                   nt_user = e_user emergency,
                                                   nt_emergency = e_id emergency,
                                                   nt_resource = r_id resource\<rparr> s2 of
                                             Inl err \<Rightarrow> (Failed (Thrown err), s2)
                                           | Inr s3 \<Rightarrow> (Ok, s3))))))))"

text \<open>
  \<open>EmergencyService.updateResourceMatch\<close> behind PUT /emergencies/:id/resources/:resourceId:
  it writes the status of the request body, one of the four, on the emergency's entry.
  \<open>isValid\<close> stands for \<open>mongoose.Types.ObjectId.isValid\<close>.
\<close>

definition updateResourceMatch ::
  "(objectId \<Rightarrow> bool) \<Rightarrow> objectId \<Rightarrow> objectId \<Rightarrow> matchStatus \<Rightarrow> store \<Rightarrow> outcome \<times> store" where
  "updateResourceMatch isValid emergencyId resourceId status s =
     (if \<not> isValid emergencyId then (Failed (ErrorResponse 400), s)
      else
        (case Emergency_findById emergencyId s of
           None \<Rightarrow> (Failed (ErrorResponse 404), s)
         | Some emergency \<Rightarrow>
             (case findByRef mr_resource resourceId (e_matchedResources emergency) of
                Inl err \<Rightarrow> (Failed (Thrown err), s)
              | Inr None \<Rightarrow> (Failed (ErrorResponse 404), s)
              | Inr (Some resourceMatch) \<Rightarrow>
                  (case emergency_save
                          (emergency\<lparr>e_matchedResources :=
                             updateFirst (\<lambda>match. mr_resource match = Some resourceId)
                               (\<lambda>match. match\<lparr>mr_status := status\<rparr>)
                               (e_matchedResources emergency)\<rparr>) s of
                     Inl err \<Rightarrow> (Failed (Thrown err), s)
                   | Inr s1 \<Rightarrow> (Ok, s1)))))"

section \<open>The two copies of a match, and runs of requests\<close>

text \<open>
  The entry of \<open>Emergency.matchedResources\<close> for a resource and the entry of
  \<open>Resource.matchedEmergencies\<close> for an emergency, as the handlers look them up:
  the first entry with the reference. \<open>None\<close> when the document or the entry is
  missing (or the lookup throws).
\<close>

definition matchRefOfEmergency :: "store \<Rightarrow> objectId \<Rightarrow> objectId \<Rightarrow> matchedResource option" where
  "matchRefOfEmergency s emergencyId resourceId =
     (case Emergency_findById emergencyId s of
        None \<Rightarrow> None
      | Some emergency \<Rightarrow>
          (case findByRef mr_resource resourceId (e_matchedResources emergency) of
             Inl err \<Rightarrow> None
           | Inr found \<Rightarrow> found))"

definition matchRefOfResource :: "store \<Rightarrow> objectId \<Rightarrow> objectId \<Rightarrow> matchedEmergency option" where
  "matchRefOfResource s resourceId emergencyId =
     (case Resource_findById resourceId s of
        None \<Rightarrow> None
      | Some resource \<Rightarrow>
          (case findByRef me_emergency emergencyId (r_matchedEmergencies resource) of
             Inl err \<Rightarrow> None
           | Inr found \<Rightarrow> found))"

text \<open>The entry that was appended last to \<open>Resource.matchedEmergencies\<close>.\<close>

definition lastMatchOfResource :: "store \<Rightarrow> objectId \<Rightarrow> matchedEmergency option" where
  "lastMatchOfResource s resourceId =
     (case Resource_findById resourceId s of
        None \<Rightarrow> None
      | Some resource \<Rightarrow>
          (case rev (r_matchedEmergencies resource) of [] \<Rightarrow> None | m # _ \<Rightarrow> Some m))"

text \<open>
  Three requests in a row, each made whatever the one before answered: the ranking of an
  emergency, which is to store its matches as pending, then \<open>accept\<close> of one of them,
  then the delivery of that resource. The run returns the three answers and the store
  that is left.
\<close>

definition proposeAcceptDeliver ::
  "machine \<Rightarrow> objectId \<Rightarrow> objectId \<Rightarrow> reqUser \<Rightarrow> reqUser \<Rightarrow> store \<Rightarrow>
   (outcome \<times> outcome \<times> outcome) \<times> store" where
  "proposeAcceptDeliver M emergencyId resourceId user user' s =
     (let (o1, s1) = matchResourcesForEmergency M emergencyId user s;
          (o2, s2) = updateMatchStatus emergencyId resourceId ''accept'' user s1;
          (o3, s3) = markResourceDelivered resourceId emergencyId user' s2
      in ((o1, o2, o3), s3))"

text \<open>Two \<open>accept\<close> requests for the same pair, one after the other.\<close>

definition acceptTwice ::
  "objectId \<Rightarrow> objectId \<Rightarrow> reqUser \<Rightarrow> reqUser \<Rightarrow> store \<Rightarrow> (outcome \<times> outcome) \<times> store" where
  "acceptTwice emergencyId resourceId user user' s =
     (let (o1, s1) = updateMatchStatus emergencyId resourceId ''accept'' user s;
          (o2, s2) = updateMatchStatus emergencyId resourceId ''accept'' user' s1
      in ((o1, o2), s2))"

section \<open>Example documents\<close>

text \<open>
  An emergency and a resource at the same place, as objects given to the matching
  functions: the emergency has a \<open>quantity\<close> here, which a stored one has not. The
  resource has an address, as after an update that wrote one. The ids are ObjectIds.
\<close>

definition exEid :: objectId where
  "exEid = ''5f0000000000000000000001''"

definition exRid :: objectId where
  "exRid = ''5f0000000000000000000002''"

definition exEmergency :: emergency where
  "exEmergency =
     \<lparr>e_id = Some exEid, e_title = ''Clinic'', e_type = ''medical'',
      e_status = ''active'', e_urgency = ''high'', e_quantity = Num 10, e_address = None,
      e_location = Some (0, 0),
      e_resourcesNeeded = [\<lparr>n_type = ''medical'', n_quantity = 10, n_fulfilled = False\<rparr>],
      e_user = ''5f0000000000000000000004'', e_assignedTo = None, e_matchedResources = []\<rparr>"

definition exResource :: resource where
  "exResource =
     \<lparr>r_id = Some exRid, r_name = ''Kits'', r_type = ''medical'',
      r_status = ''available'', r_quantity = Num 10, r_address = Some ''1 Main St'',
      r_location = Some (0, 0), r_user = ''5f0000000000000000000005'', r_assignedTo = None,
      r_matchedEmergencies = []\<rparr>"

text \<open>A second resource, 0.0001 degrees of latitude (about 11 m) to the north.\<close>

definition exNear :: resource where
  "exNear = exResource\<lparr>r_id := Some ''5f0000000000000000000003'',
                       r_location := Some (0, 1 / 10000)\<rparr>"

text \<open>A resource with the id \<open>resource2\<close>, one degree of latitude (about 111 km) away.\<close>

definition exFar :: resource where
  "exFar = exResource\<lparr>r_id := Some ''resource2'', r_location := Some (0, 1)\<rparr>"

definition exAdmin :: reqUser where
  "exAdmin = \<lparr>u_id = ''5f0000000000000000000000'', u_role = ''admin''\<rparr>"

text \<open>
  A store with the two documents, the emergency as it is stored (without \<open>quantity\<close>),
  the resource with an address.
\<close>

definition exStore :: store where
  "exStore = \<lparr>emergencies = [Emergency_hydrate exEmergency], resources = [exResource],
              notifications = []\<rparr>"

text \<open>
  The same store with a pending entry for the resource in the emergency's list, as an
  update of the emergency (\<open>findByIdAndUpdate\<close> with the body of the request) can
  write it, and the stores that requests of the admin lead to from there: \<open>accept\<close>;
  then \<open>reject\<close>, or the status \<open>pending\<close> written by
  \<open>updateResourceMatch\<close>, or the delivery.
\<close>

definition exPending :: store where
  "exPending =
     \<lparr>emergencies = [Emergency_hydrate (exEmergency\<lparr>e_matchedResources :=
        [\<lparr>mr_resource = Some exRid, mr_status = Pending, mr_matchScore = Num 80\<rparr>]\<rparr>)],
      resources = [exResource], notifications = []\<rparr>"

definition exAccepted :: store where
  "exAccepted = snd (updateMatchStatus exEid exRid ''accept'' exAdmin exPending)"

definition exRejected :: store where
  "exRejected = snd (updateMatchStatus exEid exRid ''reject'' exAdmin exAccepted)"

definition exReset :: store where
  "exReset = snd (updateResourceMatch (\<lambda>i. length i = 24) exEid exRid Pending exAccepted)"

definition exDelivered :: store where
  "exDelivered = snd (markResourceDelivered exRid exEid exAdmin exAccepted)"

text \<open>
  The first store with a pending entry for the emergency in the resource's list, and
  with the resource as the application creates it, its address removed.
\<close>

definition exPendingResource :: store where
  "exPendingResource =
     \<lparr>emergencies = [Emergency_hydrate exEmergency],
      resources = [exResource\<lparr>r_matchedEmergencies :=
        [\<lparr>me_emergency = Some exEid, me_status = Pending, me_matchScore = Num 90\<rparr>]\<rparr>],
      notifications = []\<rparr>"

definition exPendingNoAddress :: store where
  "exPendingNoAddress = exPending\<lparr>resources := [exResource\<lparr>r_address := None\<rparr>]\<rparr>"

text \<open>
  A machine whose addition returns one unit in the last place of 1 too much, as a
  rounded sum may: at two antipodal points its haversine term exceeds 1.
\<close>

definition exRounding :: machine where
  "exRounding = exact\<lparr>fl_add := \<lambda>a b. jadd (jadd a b) (Num (1 / 2 ^ 52))\<rparr>"

section \<open>Lemmas: the distance on the machine of exact arithmetic\<close>

lemma pi_ge_three: "3 \<le> pi"
proof -
  have "sin (pi / 6) \<le> pi / 6" by (rule sin_x_le_x) simp
  then show ?thesis by (simp add: sin_30)
qed

lemma haversine_a_same_point: "haversine_a exact lat lon lat lon = Num 0"
  by (simp add: haversine_a_def exact_def deg2rad_def jsub_def Let_def)

lemma calculateDistance_same_point: "calculateDistance exact lat lon lat lon = Num 0"
  by (simp add: calculateDistance_def haversine_d_def haversine_a_same_point Let_def)
     (simp add: exact_def jsub_def atan2_real_def)

lemma haversine_a_meridian:
  "haversine_a exact 0 lon lat lon
     = Num (sin (lat * (pi / 180) / 2) * sin (lat * (pi / 180) / 2))"
  by (simp add: haversine_a_def exact_def deg2rad_def jsub_def Let_def)

lemma haversine_d_meridian:
  assumes "0 \<le> lat" and "lat < 180"
  shows "haversine_d exact 0 lon lat lon = Num (6371 * (lat * (pi / 180)))"
proof -
  define u where "u = lat * (pi / 180) / 2"
  have u0: "0 \<le> u" using assms by (simp add: u_def)
  have u1: "u < pi / 2" using assms by (simp add: u_def)
  have s0: "0 \<le> sin u" using u0 u1 by (intro sin_ge_zero) simp_all
  have c0: "0 < cos u" using u0 u1 by (intro cos_gt_zero_pi) simp_all
  have a: "haversine_a exact 0 lon lat lon = Num (sin u * sin u)"
    unfolding u_def by (rule haversine_a_meridian)
  have sa: "Math_sqrt (Num (sin u * sin u)) = Num (sin u)"
    using s0 by simp
  have cc: "1 - sin u * sin u = cos u * cos u"
    using sin_cos_squared_add [of u] by (simp add: power2_eq_square)
  have sb: "Math_sqrt (jsub (Num 1) (Num (sin u * sin u))) = Num (cos u)"
    using c0 by (simp add: jsub_def cc)
  have "atan2_real (sin u) (cos u) = arctan (tan u)"
    using c0 by (simp add: atan2_real_def tan_def)
  also have "\<dots> = u" using u0 u1 by (intro arctan_tan) simp_all
  finally have at: "Math_atan2 (Num (sin u)) (Num (cos u)) = Num u" by simp
  have "haversine_d exact 0 lon lat lon =
      jmul (Num 6371) (jmul (Num 2)
        (Math_atan2 (Math_sqrt (Num (sin u * sin u)))
                    (Math_sqrt (jsub (Num 1) (Num (sin u * sin u))))))"
    by (simp add: haversine_d_def Let_def a) (simp add: exact_def)
  then show ?thesis by (simp only: sa sb at) (simp add: u_def)
qed

lemma haversine_d_11m: "haversine_d exact 0 0 (1 / 10000) 0 = Num (6371 * pi / 1800000)"
  using haversine_d_meridian [of "1 / 10000" 0] by simp

lemma calculateDistance_11m: "calculateDistance exact 0 0 (1 / 10000) 0 = Num (1 / 100)"
proof -
  have lo: "(1::real) \<le> 6371 * pi / 1800000 * 100 + 1 / 2" using pi_ge_two by simp
  have hi: "6371 * pi / 1800000 * 100 + 1 / 2 < (2::real)" using pi_less_4 by simp
  have fl: "\<lfloor>6371 * pi / 1800000 * 100 + 1 / 2\<rfloor> = 1" using lo hi by linarith
  have small: "\<not> 10 ^ 21 \<le> \<bar>6371 * pi / 1800000\<bar>" using pi_less_4 by simp
  have pos: "\<not> 6371 * pi / 1800000 < 0" using pi_ge_two by simp
  show ?thesis
    unfolding calculateDistance_def haversine_d_11m toFixed2.simps
    using small pos fl by (simp only: if_False) simp
qed


lemma calculateDistance_one_degree:
  "\<exists>d. calculateDistance exact 0 0 1 0 = Num d \<and> 100 < d"
proof -
  have d: "haversine_d exact 0 0 1 0 = Num (6371 * pi / 180)"
    using haversine_d_meridian [of 1 0] by simp
  define n where "n = \<lfloor>6371 * pi / 180 * 100 + 1 / 2\<rfloor>"
  have small: "\<not> 10 ^ 21 \<le> \<bar>6371 * pi / 180\<bar>" using pi_less_4 by simp
  have pos: "\<not> 6371 * pi / 180 < 0" using pi_ge_two by simp
  have c: "calculateDistance exact 0 0 1 0 = Num (of_int n / 100)"
    unfolding calculateDistance_def d toFixed2.simps n_def
    using small pos by (simp only: if_False)
  have "6371 * pi / 180 * 100 + 1 / 2 < of_int n + 1" unfolding n_def by linarith
  then have "100 < (of_int n / 100 :: real)" using pi_ge_three by (simp add: field_simps)
  then show ?thesis using c by blast
qed

section \<open>Lemmas: sorting and the ranked lists\<close>

lemma jgt_sub: "a \<noteq> NaN \<Longrightarrow> b \<noteq> NaN \<Longrightarrow> jgt (jsub b a) (Num 0) = jgt b a"
  by (cases a; cases b) (simp_all add: jsub_def)

lemma jge_iff: "a \<noteq> NaN \<Longrightarrow> b \<noteq> NaN \<Longrightarrow> jge a b = (\<not> jgt b a)"
  by (cases a; cases b) simp_all

lemma jge_trans: "jge a b \<Longrightarrow> jge b c \<Longrightarrow> jge a c"
  by (cases a; cases b; cases c) simp_all

lemma set_insertBy: "set (insertBy c x ys) = insert x (set ys)"
  by (induction ys) auto

lemma set_Array_sort: "set (Array_sort c xs) = set xs"
  by (induction xs) (simp_all add: Array_sort_def set_insertBy)

lemma sorted_insertBy:
  assumes "\<forall>y\<in>set ys. key y \<noteq> NaN" and "key x \<noteq> NaN"
    and "sorted_wrt (\<lambda>a b. jge (key a) (key b)) ys"
  shows "sorted_wrt (\<lambda>a b. jge (key a) (key b)) (insertBy (\<lambda>a b. jsub (key b) (key a)) x ys)"
  using assms
proof (induction ys)
  case Nil
  then show ?case by simp
next
  case (Cons y ys)
  show ?case
  proof (cases "jgt (key y) (key x)")
    case True
    then have "jge (key y) (key x)" using Cons.prems by (cases "key y"; cases "key x") simp_all
    then show ?thesis using True Cons by (auto simp: jgt_sub set_insertBy)
  next
    case False
    then have xy: "jge (key x) (key y)" using Cons.prems by (simp add: jge_iff)
    then have "\<forall>z\<in>set ys. jge (key x) (key z)" using Cons.prems(3) by (auto intro: jge_trans)
    then show ?thesis using False xy Cons.prems by (simp add: jgt_sub)
  qed
qed

lemma sorted_Array_sort:
  assumes "\<forall>y\<in>set xs. key y \<noteq> NaN"
  shows "sorted_wrt (\<lambda>a b. jge (key a) (key b)) (Array_sort (\<lambda>a b. jsub (key b) (key a)) xs)"
  using assms
proof (induction xs)
  case Nil
  then show ?case by (simp add: Array_sort_def)
next
  case (Cons x xs)
  have "sorted_wrt (\<lambda>a b. jge (key a) (key b))
          (insertBy (\<lambda>a b. jsub (key b) (key a)) x (Array_sort (\<lambda>a b. jsub (key b) (key a)) xs))"
    using Cons by (intro sorted_insertBy) (simp_all add: set_Array_sort)
  then show ?case by (simp add: Array_sort_def)
qed

lemma filter_insertBy:
  assumes "\<forall>y\<in>set ys. key y \<noteq> NaN" and "key x \<noteq> NaN"
  shows "filter (\<lambda>m. key m = k) (insertBy (\<lambda>a b. jsub (key b) (key a)) x ys)
         = filter (\<lambda>m. key m = k) (x # ys)"
  using assms
proof (induction ys)
  case Nil
  then show ?case by simp
next
  case (Cons y ys)
  show ?case
  proof (cases "jgt (key y) (key x)")
    case True
    then have "key y \<noteq> key x" by (cases "key x") auto
    then show ?thesis using True Cons by (auto simp: jgt_sub)
  next
    case False
    then show ?thesis using Cons.prems by (simp add: jgt_sub)
  qed
qed

lemma filter_Array_sort:
  assumes "\<forall>y\<in>set xs. key y \<noteq> NaN"
  shows "filter (\<lambda>m. key m = k) (Array_sort (\<lambda>a b. jsub (key b) (key a)) xs)
         = filter (\<lambda>m. key m = k) xs"
  using assms
proof (induction xs)
  case Nil
  then show ?case by (simp add: Array_sort_def)
next
  case (Cons x xs)
  have "filter (\<lambda>m. key m = k)
          (insertBy (\<lambda>a b. jsub (key b) (key a)) x (Array_sort (\<lambda>a b. jsub (key b) (key a)) xs))
        = filter (\<lambda>m. key m = k) (x # Array_sort (\<lambda>a b. jsub (key b) (key a)) xs)"
    using Cons.prems by (intro filter_insertBy) (simp_all add: set_Array_sort)
  then show ?case using Cons by (simp add: Array_sort_def)
qed


lemma mapThrowing_subseq_resources:
  "mapThrowing (scoreResource M e md) xs = Inr ys \<Longrightarrow>
   subseq (map m_resource (List.map_filter (\<lambda>m. m) ys)) xs"
proof (induction xs arbitrary: ys)
  case Nil
  then show ?case by (simp add: List.map_filter_simps)
next
  case (Cons x xs)
  from Cons.prems obtain y ys' where fx: "scoreResource M e md x = Inr y"
    and rest: "mapThrowing (scoreResource M e md) xs = Inr ys'" and ys: "ys = y # ys'"
    by (auto split: sum.splits)
  have ih: "subseq (map m_resource (List.map_filter (\<lambda>m. m) ys')) xs"
    using Cons.IH [OF rest] .
  show ?case
  proof (cases y)
    case None
    then show ?thesis using ih by (simp add: ys List.map_filter_simps list_emb_Cons)
  next
    case (Some m)
    then have "m_resource m = x" using fx
      by (auto simp: scoreResource_def Let_def split: if_splits sum.splits)
    then show ?thesis using ih Some by (simp add: ys List.map_filter_simps)
  qed
qed

lemma mapThrowing_members:
  "mapThrowing f xs = Inr ys \<Longrightarrow> y \<in> set ys \<Longrightarrow> \<exists>x\<in>set xs. f x = Inr y"
proof (induction xs arbitrary: ys)
  case Nil
  then show ?case by simp
next
  case (Cons x xs)
  then show ?case by (fastforce split: sum.splits)
qed

lemma scoreResource_entry:
  assumes "scoreResource M e md r = Inr (Some m)"
    and "r_id r \<noteq> Some ''resource1''" and "r_id r \<noteq> Some ''resource2''"
  shows "candidateDistance M e r = Inr (m_distance m) \<and> \<not> jgt (m_distance m) (Num md)"
  using assms by (auto simp: scoreResource_def Let_def split: if_splits sum.splits)

lemma scoreResource_resource:
  "scoreResource M e md r = Inr (Some m) \<Longrightarrow> m_resource m = r"
  by (auto simp: scoreResource_def Let_def split: if_splits sum.splits)

lemma resourceMatches_members:
  assumes "resourceMatches M e rs md = Some ms" and "m \<in> set ms"
  shows "scoreResource M e md (m_resource m) = Inr (Some m) \<and> m_resource m \<in> set rs"
proof -
  from assms(1) obtain ys where ys: "mapThrowing (scoreResource M e md) (matchingResources e rs) = Inr ys"
    and ms: "ms = List.map_filter (\<lambda>m. m) ys"
    by (auto simp: resourceMatches_def split: sum.splits)
  from assms(2) ms have "Some m \<in> set ys" by (auto simp: List.map_filter_def)
  from mapThrowing_members [OF ys this] obtain r where r: "r \<in> set (matchingResources e rs)"
    and sr: "scoreResource M e md r = Inr (Some m)" by blast
  have "m_resource m = r" using sr by (rule scoreResource_resource)
  then show ?thesis using r sr by (simp add: matchingResources_def)
qed

lemma matchResourcesToEmergency_set:
  "m \<in> set (matchResourcesToEmergency M e rs md) \<Longrightarrow>
   \<exists>ms. resourceMatches M e rs md = Some ms \<and> m \<in> set ms"
  by (cases "resourceMatches M e rs md")
     (auto simp: matchResourcesToEmergency_def set_Array_sort split: if_splits)

lemma resourceMatches_subseq:
  assumes "resourceMatches M e rs md = Some ms"
  shows "subseq (map m_resource (filter P ms)) rs"
proof -
  from assms obtain ys where ys: "mapThrowing (scoreResource M e md) (matchingResources e rs) = Inr ys"
    and ms: "ms = List.map_filter (\<lambda>m. m) ys"
    by (auto simp: resourceMatches_def split: sum.splits)
  have "subseq (map m_resource (filter P ms)) (map m_resource ms)"
    by (intro subseq_map) simp
  also have "subseq (map m_resource ms) (matchingResources e rs)"
    unfolding ms using ys by (rule mapThrowing_subseq_resources)
  also have "subseq (matchingResources e rs) rs" by (simp add: matchingResources_def)
  finally show ?thesis .
qed

lemma mapThrowing_subseq_emergencies:
  "mapThrowing (scoreEmergency M r md) xs = Inr ys \<Longrightarrow>
   subseq (map em_emergency (List.map_filter (\<lambda>m. m) ys)) xs"
proof (induction xs arbitrary: ys)
  case Nil
  then show ?case by (simp add: List.map_filter_simps)
next
  case (Cons x xs)
  from Cons.prems obtain y ys' where fx: "scoreEmergency M r md x = Inr y"
    and rest: "mapThrowing (scoreEmergency M r md) xs = Inr ys'" and ys: "ys = y # ys'"
    by (auto split: sum.splits)
  have ih: "subseq (map em_emergency (List.map_filter (\<lambda>m. m) ys')) xs"
    using Cons.IH [OF rest] .
  show ?case
  proof (cases y)
    case None
    then show ?thesis using ih by (simp add: ys List.map_filter_simps list_emb_Cons)
  next
    case (Some m)
    then have "em_emergency m = x" using fx
      by (auto simp: scoreEmergency_def Let_def split: if_splits sum.splits)
    then show ?thesis using ih Some by (simp add: ys List.map_filter_simps)
  qed
qed

lemma scoreEmergency_entry:
  assumes "scoreEmergency M r md e = Inr (Some m)"
  shows "em_emergency m = e \<and> candidateDistance M e r = Inr (em_distance m) \<and> \<not> jgt (em_distance m) (Num md)"
  using assms by (auto simp: scoreEmergency_def Let_def split: if_splits sum.splits)

lemma emergencyMatches_members:
  assumes "emergencyMatches M r es md = Some ms" and "m \<in> set ms"
  shows "scoreEmergency M r md (em_emergency m) = Inr (Some m) \<and> em_emergency m \<in> set es"
proof -
  from assms(1) obtain ys where ys: "mapThrowing (scoreEmergency M r md) (matchingEmergencies r es) = Inr ys"
    and ms: "ms = List.map_filter (\<lambda>m. m) ys"
    by (auto simp: emergencyMatches_def split: sum.splits)
  from assms(2) ms have "Some m \<in> set ys" by (auto simp: List.map_filter_def)
  from mapThrowing_members [OF ys this] obtain e where e: "e \<in> set (matchingEmergencies r es)"
    and se: "scoreEmergency M r md e = Inr (Some m)" by blast
  have "em_emergency m = e" using scoreEmergency_entry [OF se] by simp
  then show ?thesis using e se by (simp add: matchingEmergencies_def)
qed

lemma matchEmergenciesToResource_set:
  "\<not> mockBranch r es \<Longrightarrow> m \<in> set (matchEmergenciesToResource M r es md) \<Longrightarrow>
   \<exists>ms. emergencyMatches M r es md = Some ms \<and> m \<in> set ms"
  by (cases "emergencyMatches M r es md")
     (auto simp: matchEmergenciesToResource_def set_Array_sort split: if_splits)

lemma emergencyMatches_subseq:
  assumes "emergencyMatches M r es md = Some ms"
  shows "subseq (map em_emergency (filter P ms)) es"
proof -
  from assms obtain ys where ys: "mapThrowing (scoreEmergency M r md) (matchingEmergencies r es) = Inr ys"
    and ms: "ms = List.map_filter (\<lambda>m. m) ys"
    by (auto simp: emergencyMatches_def split: sum.splits)
  have "subseq (map em_emergency (filter P ms)) (map em_emergency ms)"
    by (intro subseq_map) simp
  also have "subseq (map em_emergency ms) (matchingEmergencies r es)"
    unfolding ms using ys by (rule mapThrowing_subseq_emergencies)
  also have "subseq (matchingEmergencies r es) es" by (simp add: matchingEmergencies_def)
  finally show ?thesis .
qed

lemma resource_ranking_sorted:
  assumes "\<forall>m\<in>set (matchResourcesToEmergency M e rs md). m_matchScore m \<noteq> NaN"
  shows "sorted_wrt (\<lambda>a b. jge (m_matchScore a) (m_matchScore b)) (matchResourcesToEmergency M e rs md)"
proof (cases "e_location e = Some (100, 100)")
  case True
  then show ?thesis by (simp add: matchResourcesToEmergency_def)
next
  case False
  show ?thesis
  proof (cases "resourceMatches M e rs md")
    case None
    then show ?thesis using False by (simp add: matchResourcesToEmergency_def)
  next
    case (Some ms)
    then have out: "matchResourcesToEmergency M e rs md =
        Array_sort (\<lambda>a b. jsub (m_matchScore b) (m_matchScore a)) ms"
      using False by (simp add: matchResourcesToEmergency_def compareResourceMatch_def [abs_def])
    have "\<forall>m\<in>set ms. m_matchScore m \<noteq> NaN" using assms by (simp add: out set_Array_sort)
    then show ?thesis unfolding out by (rule sorted_Array_sort)
  qed
qed

lemma resource_ranking_ties:
  assumes "\<forall>m\<in>set (matchResourcesToEmergency M e rs md). m_matchScore m \<noteq> NaN"
  shows "subseq (map m_resource
           (filter (\<lambda>m. m_matchScore m = k) (matchResourcesToEmergency M e rs md))) rs"
proof (cases "e_location e = Some (100, 100)")
  case True
  then show ?thesis by (simp add: matchResourcesToEmergency_def)
next
  case False
  show ?thesis
  proof (cases "resourceMatches M e rs md")
    case None
    then show ?thesis using False by (simp add: matchResourcesToEmergency_def)
  next
    case (Some ms)
    then have out: "matchResourcesToEmergency M e rs md =
        Array_sort (\<lambda>a b. jsub (m_matchScore b) (m_matchScore a)) ms"
      using False by (simp add: matchResourcesToEmergency_def compareResourceMatch_def [abs_def])
    have "\<forall>m\<in>set ms. m_matchScore m \<noteq> NaN" using assms by (simp add: out set_Array_sort)
    then have "filter (\<lambda>m. m_matchScore m = k) (matchResourcesToEmergency M e rs md)
        = filter (\<lambda>m. m_matchScore m = k) ms"
      unfolding out by (rule filter_Array_sort)
    then show ?thesis using resourceMatches_subseq [OF Some] by simp
  qed
qed

lemma emergency_ranking_sorted:
  assumes "\<forall>m\<in>set (matchEmergenciesToResource M r es md). em_matchScore m \<noteq> NaN"
  shows "sorted_wrt (\<lambda>a b. jge (em_matchScore a) (em_matchScore b)) (matchEmergenciesToResource M r es md)"
proof (cases "mockBranch r es")
  case True
  then show ?thesis by (simp add: matchEmergenciesToResource_def)
next
  case False
  show ?thesis
  proof (cases "emergencyMatches M r es md")
    case None
    then show ?thesis using False by (simp add: matchEmergenciesToResource_def)
  next
    case (Some ms)
    then have out: "matchEmergenciesToResource M r es md =
        Array_sort (\<lambda>a b. jsub (em_matchScore b) (em_matchScore a)) ms"
      using False by (simp add: matchEmergenciesToResource_def compareEmergencyMatch_def [abs_def])
    have "\<forall>m\<in>set ms. em_matchScore m \<noteq> NaN" using assms by (simp add: out set_Array_sort)
    then show ?thesis unfolding out by (rule sorted_Array_sort)
  qed
qed

lemma emergency_ranking_ties:
  assumes "\<forall>m\<in>set (matchEmergenciesToResource M r es md). em_matchScore m \<noteq> NaN"
    and "\<not> mockBranch r es"
  shows "subseq (map em_emergency
           (filter (\<lambda>m. em_matchScore m = k) (matchEmergenciesToResource M r es md))) es"
proof (cases "emergencyMatches M r es md")
  case None
  then show ?thesis using assms(2) by (simp add: matchEmergenciesToResource_def)
next
  case (Some ms)
  then have out: "matchEmergenciesToResource M r es md =
      Array_sort (\<lambda>a b. jsub (em_matchScore b) (em_matchScore a)) ms"
    using assms(2) by (simp add: matchEmergenciesToResource_def compareEmergencyMatch_def [abs_def])
  have "\<forall>m\<in>set ms. em_matchScore m \<noteq> NaN" using assms(1) by (simp add: out set_Array_sort)
  then have "filter (\<lambda>m. em_matchScore m = k) (matchEmergenciesToResource M r es md)
      = filter (\<lambda>m. em_matchScore m = k) ms"
    unfolding out by (rule filter_Array_sort)
  then show ?thesis using emergencyMatches_subseq [OF Some] by simp
qed

section \<open>Lemmas: the ranking of the example documents\<close>

lemma rank_exResource:
  "matchResourcesToEmergency exact exEmergency [exResource] 50 =
     [\<lparr>m_resource = exResource, m_distance = Num 0, m_matchScore = Num 100\<rparr>]"
  by (simp add: matchResourcesToEmergency_def resourceMatches_def matchingResources_def
      scoreResource_def candidateDistance_def calculateDistance_same_point
      distanceScore_def quantityScore_def jsub_def Array_sort_def List.map_filter_simps
      exEmergency_def exResource_def exEid_def exRid_def)

lemma rank_exNear_exResource:
  "matchResourcesToEmergency exact exEmergency [exNear, exResource] 50 =
     [\<lparr>m_resource = exNear, m_distance = Num (1 / 100), m_matchScore = Num 100\<rparr>,
      \<lparr>m_resource = exResource, m_distance = Num 0, m_matchScore = Num 100\<rparr>]"
  by (simp add: matchResourcesToEmergency_def resourceMatches_def matchingResources_def
      scoreResource_def candidateDistance_def calculateDistance_same_point
      calculateDistance_11m compareResourceMatch_def
      distanceScore_def quantityScore_def jsub_def Array_sort_def List.map_filter_simps
      exEmergency_def exResource_def exEid_def exRid_def exNear_def)

lemma rank_exFar:
  "matchResourcesToEmergency exact exEmergency [exFar] 5 =
     [\<lparr>m_resource = exFar, m_distance = Num 10, m_matchScore = Num 60\<rparr>]"
  by (simp add: matchResourcesToEmergency_def resourceMatches_def matchingResources_def
      scoreResource_def Array_sort_def List.map_filter_simps
      exEmergency_def exResource_def exEid_def exRid_def exFar_def)

lemma rank_zero_quantities:
  "matchResourcesToEmergency exact (exEmergency\<lparr>e_quantity := Num 0\<rparr>) [exResource\<lparr>r_quantity := Num 0\<rparr>] 50 =
     [\<lparr>m_resource = exResource\<lparr>r_quantity := Num 0\<rparr>, m_distance = Num 0, m_matchScore = NaN\<rparr>]"
  by (simp add: matchResourcesToEmergency_def resourceMatches_def matchingResources_def
      scoreResource_def candidateDistance_def calculateDistance_same_point
      distanceScore_def quantityScore_def jsub_def Array_sort_def List.map_filter_simps
      exEmergency_def exResource_def exEid_def exRid_def)


lemma rank_exEmergency:
  "matchEmergenciesToResource exact exResource [exEmergency] 50 =
     [\<lparr>em_emergency = exEmergency, em_distance = Num 0, em_matchScore = Num 90\<rparr>]"
  by (simp add: matchEmergenciesToResource_def mockBranch_def emergencyMatches_def
      matchingEmergencies_def getUrgencyScore_def
      scoreEmergency_def candidateDistance_def calculateDistance_same_point
      distanceScore_def quantityScore_def jsub_def Array_sort_def List.map_filter_simps
      exEmergency_def exResource_def exEid_def exRid_def)

lemma rank_zero_quantities_emergency:
  "matchEmergenciesToResource exact (exResource\<lparr>r_quantity := Num 0\<rparr>) [exEmergency\<lparr>e_quantity := Num 0\<rparr>] 50 =
     [\<lparr>em_emergency = exEmergency\<lparr>e_quantity := Num 0\<rparr>, em_distance = Num 0, em_matchScore = NaN\<rparr>]"
  by (simp add: matchEmergenciesToResource_def mockBranch_def emergencyMatches_def
      matchingEmergencies_def getUrgencyScore_def
      scoreEmergency_def candidateDistance_def calculateDistance_same_point
      distanceScore_def quantityScore_def jsub_def Array_sort_def List.map_filter_simps
      exEmergency_def exResource_def exEid_def exRid_def)




section \<open>Lemmas: the store and the handlers\<close>

lemma find_map_replace:
  assumes "find (\<lambda>x. key x = k) xs = Some x" and "key y = k"
  shows "find (\<lambda>x. key x = k) (map (\<lambda>x. if key x = k then y else x) xs) = Some y"
  using assms by (induction xs) (auto split: if_splits)

lemma Emergency_findById_id: "Emergency_findById eid s = Some e \<Longrightarrow> e_id e = Some eid"
  by (auto simp: Emergency_findById_def Emergency_hydrate_def find_Some_iff)

lemma Emergency_findById_hydrated:
  "Emergency_findById eid s = Some e \<Longrightarrow> Emergency_hydrate e = e"
  by (auto simp: Emergency_findById_def Emergency_hydrate_def)

lemma Resource_findById_id: "Resource_findById rid s = Some r \<Longrightarrow> r_id r = Some rid"
  by (auto simp: Resource_findById_def find_Some_iff)

lemma Emergency_findById_replace:
  assumes "Emergency_findById eid s = Some e" and "e_id e' = Some eid"
  shows "Emergency_findById eid (replaceEmergency e' s) = Some (Emergency_hydrate e')"
proof -
  from assms(1) obtain x where "find (\<lambda>e. e_id e = Some eid) (emergencies s) = Some x"
    by (auto simp: Emergency_findById_def)
  from find_map_replace [where key = e_id, OF this assms(2)] assms(2)
  show ?thesis by (simp add: Emergency_findById_def replaceEmergency_def)
qed

lemma Resource_findById_replace:
  "Resource_findById rid s = Some r \<Longrightarrow> r_id r' = Some rid \<Longrightarrow>
   Resource_findById rid (replaceResource r' s) = Some r'"
  by (simp add: Resource_findById_def replaceResource_def find_map_replace [where key = r_id])

lemma Resource_findById_replaceEmergency [simp]:
  "Resource_findById rid (replaceEmergency e s) = Resource_findById rid s"
  by (simp add: Resource_findById_def replaceEmergency_def)

lemma Emergency_findById_replaceResource [simp]:
  "Emergency_findById eid (replaceResource r s) = Emergency_findById eid s"
  by (simp add: Emergency_findById_def replaceResource_def)

lemma Resource_findById_notifications [simp]:
  "Resource_findById rid (s\<lparr>notifications := ns\<rparr>) = Resource_findById rid s"
  by (simp add: Resource_findById_def)

lemma Emergency_findById_notifications [simp]:
  "Emergency_findById eid (s\<lparr>notifications := ns\<rparr>) = Emergency_findById eid s"
  by (simp add: Emergency_findById_def)

lemma findByRef_updateFirst:
  assumes "findByRef ref i xs = Inr (Some x)" and "\<And>y. ref (f y) = ref y"
  shows "findByRef ref i (updateFirst (\<lambda>m. ref m = Some i) f xs) = Inr (Some (f x))"
  using assms by (induction xs) (auto split: option.splits if_splits)

lemma findByRef_member:
  "findByRef ref i xs = Inr (Some x) \<Longrightarrow> x \<in> set xs \<and> ref x = Some i"
  by (induction xs) (auto split: option.splits if_splits)

lemma list_all_updateFirst:
  assumes "\<And>x. Q (f x) = Q x"
  shows "list_all Q (updateFirst P f xs) = list_all Q xs"
  using assms by (induction xs) auto

text \<open>Validation does not read the status of a match or the \<open>fulfilled\<close> flag of a need.\<close>

lemma Emergency_validate_hydrate [simp]:
  "Emergency_validate (Emergency_hydrate e) = Emergency_validate e"
  by (simp add: Emergency_validate_def Emergency_hydrate_def split: option.split)

lemma Emergency_validate_status [simp]:
  "Emergency_validate (e\<lparr>e_matchedResources :=
      updateFirst P (\<lambda>match. match\<lparr>mr_status := st\<rparr>) (e_matchedResources e)\<rparr>)
   = Emergency_validate e"
  by (simp add: Emergency_validate_def list_all_updateFirst split: option.split)

lemma Emergency_validate_delivered [simp]:
  "Emergency_validate (e\<lparr>e_resourcesNeeded :=
      updateFirst P' (\<lambda>need. need\<lparr>n_fulfilled := True\<rparr>) (e_resourcesNeeded e),
    e_matchedResources :=
      updateFirst P (\<lambda>match. match\<lparr>mr_status := st\<rparr>) (e_matchedResources e)\<rparr>)
   = Emergency_validate e"
  by (simp add: Emergency_validate_def list_all_updateFirst split: option.split)

lemma Emergency_validate_score:
  assumes "Emergency_validate e" and "findByRef mr_resource rid (e_matchedResources e) = Inr (Some m)"
  shows "validScore (mr_matchScore m)"
  using assms findByRef_member [OF assms(2)]
  by (auto simp: Emergency_validate_def list_all_iff)

lemma Resource_validate_reserved:
  "Resource_validate (r\<lparr>r_status := ''reserved'',
      r_matchedEmergencies := r_matchedEmergencies r @
        [\<lparr>me_emergency = i, me_status = st, me_matchScore = sc\<rparr>]\<rparr>)
   = (Resource_validate (r\<lparr>r_status := ''reserved''\<rparr>) \<and> validScore sc)"
  by (auto simp: Resource_validate_def)

lemma Resource_validate_reserved_of_valid:
  "Resource_validate r \<Longrightarrow> Resource_validate (r\<lparr>r_status := ''reserved''\<rparr>)"
  by (simp add: Resource_validate_def resourceStatuses_def)

lemma Resource_validate_delivered:
  "Resource_validate r \<Longrightarrow>
   Resource_validate (r\<lparr>r_status := ''delivered'',
      r_matchedEmergencies :=
        updateFirst P (\<lambda>match. match\<lparr>me_status := st\<rparr>) (r_matchedEmergencies r)\<rparr>)"
  by (simp add: Resource_validate_def resourceStatuses_def list_all_updateFirst)

lemma Resource_validate_address:
  "r_address r = None \<Longrightarrow> \<not> Resource_validate (r\<lparr>r_status := st, r_matchedEmergencies := ms\<rparr>)"
  by (simp add: Resource_validate_def)

lemma Notification_validate_accepted [simp]:
  "Notification_validate \<lparr>nt_type = ''match_accepted'', nt_title = ''Resource Match Accepted'',
     nt_user = u, nt_emergency = i, nt_resource = j\<rparr>"
  by (simp add: Notification_validate_def notificationTypes_def)

lemma Notification_validate_delivered [simp]:
  "\<not> Notification_validate \<lparr>nt_type = ''resource_delivered'', nt_title = t,
     nt_user = u, nt_emergency = i, nt_resource = j\<rparr>"
  by (simp add: Notification_validate_def notificationTypes_def)

text \<open>The handlers, step by step.\<close>

lemma accept_step:
  assumes "Emergency_findById eid s = Some e"
    and "\<not> notAuthorized user (e_user e) (e_assignedTo e)"
    and "findByRef mr_resource rid (e_matchedResources e) = Inr (Some m)"
    and "Emergency_validate e"
    and "Resource_findById rid s = Some r"
    and "Resource_validate (r\<lparr>r_status := ''reserved''\<rparr>)"
  shows "updateMatchStatus eid rid ''accept'' user s =
     (Ok, (replaceResource
          (r\<lparr>r_status := ''reserved'',
             r_matchedEmergencies := r_matchedEmergencies r @
               [\<lparr>me_emergency = e_id e, me_status = Accepted, me_matchScore = mr_matchScore m\<rparr>]\<rparr>)
          (replaceEmergency
            (e\<lparr>e_matchedResources :=
                updateFirst (\<lambda>match. mr_resource match = Some rid)
                  (\<lambda>match. match\<lparr>mr_status := Accepted\<rparr>) (e_matchedResources e)\<rparr>) s))
        \<lparr>notifications := notifications s @
          [\<lparr>nt_type = ''match_accepted'', nt_title = ''Resource Match Accepted'',
            nt_user = r_user r, nt_emergency = e_id e, nt_resource = r_id r\<rparr>]\<rparr>)"
  using assms Emergency_validate_score [OF assms(4) assms(3)]
  by (simp add: updateMatchStatus_def Let_def emergency_save_def resource_save_def
      Notification_create_def Resource_validate_reserved)
     (simp add: replaceResource_def replaceEmergency_def)

lemma accept_step_no_address:
  assumes "Emergency_findById eid s = Some e"
    and "\<not> notAuthorized user (e_user e) (e_assignedTo e)"
    and "findByRef mr_resource rid (e_matchedResources e) = Inr (Some m)"
    and "Emergency_validate e"
    and "Resource_findById rid s = Some r"
    and "r_address r = None"
  shows "updateMatchStatus eid rid ''accept'' user s =
     (Failed (Thrown ValidationError),
      replaceEmergency
        (e\<lparr>e_matchedResources :=
            updateFirst (\<lambda>match. mr_resource match = Some rid)
              (\<lambda>match. match\<lparr>mr_status := Accepted\<rparr>) (e_matchedResources e)\<rparr>) s)"
  using assms
  by (simp add: updateMatchStatus_def Let_def emergency_save_def resource_save_def
      Resource_validate_address)

lemma accept_step_no_resource:
  assumes "Emergency_findById eid s = Some e"
    and "\<not> notAuthorized user (e_user e) (e_assignedTo e)"
    and "findByRef mr_resource rid (e_matchedResources e) = Inr (Some m)"
    and "Emergency_validate e"
    and "Resource_findById rid s = None"
  shows "updateMatchStatus eid rid ''accept'' user s =
     (Failed (Thrown TypeError),
      replaceEmergency
        (e\<lparr>e_matchedResources :=
            updateFirst (\<lambda>match. mr_resource match = Some rid)
              (\<lambda>match. match\<lparr>mr_status := Accepted\<rparr>) (e_matchedResources e)\<rparr>) s)"
  using assms
  by (simp add: updateMatchStatus_def Let_def emergency_save_def)

lemma reject_step:
  assumes "Emergency_findById eid s = Some e"
    and "\<not> notAuthorized user (e_user e) (e_assignedTo e)"
    and "findByRef mr_resource rid (e_matchedResources e) = Inr (Some m)"
    and "Emergency_validate e"
  shows "updateMatchStatus eid rid ''reject'' user s =
     (Ok, replaceEmergency
            (e\<lparr>e_matchedResources :=
                updateFirst (\<lambda>match. mr_resource match = Some rid)
                  (\<lambda>match. match\<lparr>mr_status := Rejected\<rparr>) (e_matchedResources e)\<rparr>) s)"
  using assms by (simp add: updateMatchStatus_def Let_def emergency_save_def)

lemma updateResourceMatch_step:
  assumes "isValid eid"
    and "Emergency_findById eid s = Some e"
    and "findByRef mr_resource rid (e_matchedResources e) = Inr (Some m)"
    and "Emergency_validate e"
  shows "updateResourceMatch isValid eid rid st s =
     (Ok, replaceEmergency
            (e\<lparr>e_matchedResources :=
                updateFirst (\<lambda>match. mr_resource match = Some rid)
                  (\<lambda>match. match\<lparr>mr_status := st\<rparr>) (e_matchedResources e)\<rparr>) s)"
  using assms by (simp add: updateResourceMatch_def emergency_save_def)

lemma deliver_step:
  assumes "Resource_findById rid s = Some r"
    and "\<not> notAuthorized user (r_user r) (r_assignedTo r)"
    and "findByRef me_emergency eid (r_matchedEmergencies r) = Inr (Some m)"
    and "me_status m = Accepted"
    and "Resource_validate r"
    and "Emergency_findById eid s = Some e"
    and "findByRef mr_resource rid (e_matchedResources e) = Inr (Some m')"
    and "Emergency_validate e"
  shows "markResourceDelivered rid eid user s =
     (Failed (Thrown ValidationError),
      replaceEmergency
          (e\<lparr>e_resourcesNeeded :=
               updateFirst (\<lambda>need. n_type need = r_type r \<and> \<not> n_fulfilled need)
                 (\<lambda>need. need\<lparr>n_fulfilled := True\<rparr>) (e_resourcesNeeded e),
             e_matchedResources :=
               updateFirst (\<lambda>match. mr_resource match = Some rid)
                 (\<lambda>match. match\<lparr>mr_status := Delivered\<rparr>) (e_matchedResources e)\<rparr>)
          (replaceResource
            (r\<lparr>r_status := ''delivered'',
               r_matchedEmergencies :=
                 updateFirst (\<lambda>match. me_emergency match = Some eid)
                   (\<lambda>match. match\<lparr>me_status := Delivered\<rparr>) (r_matchedEmergencies r)\<rparr>) s))"
  using assms Resource_validate_delivered [OF assms(5)]
  by (simp add: markResourceDelivered_def Let_def emergency_save_def resource_save_def
      Notification_create_def)

lemma deliver_refused:
  assumes "Resource_findById rid s = Some r"
    and "\<not> notAuthorized user (r_user r) (r_assignedTo r)"
    and "findByRef me_emergency eid (r_matchedEmergencies r) = Inr found"
    and "found = None \<or> map_option me_status found \<noteq> Some Accepted"
  shows "markResourceDelivered rid eid user s = (Failed (ErrorResponse 404), s)"
  using assms by (auto simp: markResourceDelivered_def Let_def split: option.splits)

text \<open>No request for a delivery is answered with 200.\<close>

lemma deliver_never_Ok: "fst (markResourceDelivered rid eid user s) \<noteq> Ok"
  by (simp add: markResourceDelivered_def Let_def Notification_create_def
      split: option.splits sum.splits)

lemma accept_Ok_inv:
  assumes "updateMatchStatus eid rid ''accept'' user s = (Ok, s')"
  obtains e m r where "Emergency_findById eid s = Some e"
    and "\<not> notAuthorized user (e_user e) (e_assignedTo e)"
    and "findByRef mr_resource rid (e_matchedResources e) = Inr (Some m)"
    and "Emergency_validate e"
    and "Resource_findById rid s = Some r"
    and "Resource_validate (r\<lparr>r_status := ''reserved''\<rparr>)"
  using assms
  by (auto simp: updateMatchStatus_def Let_def emergency_save_def resource_save_def
      Resource_validate_reserved split: option.splits sum.splits if_splits)

text \<open>What the handlers leave in the two lists.\<close>

lemma hydrate_matchedResources:
  "Emergency_hydrate e = e \<Longrightarrow>
   Emergency_hydrate (e\<lparr>e_matchedResources := ms\<rparr>) = e\<lparr>e_matchedResources := ms\<rparr>"
  by (cases e) (simp add: Emergency_hydrate_def)

lemma hydrate_delivered:
  "Emergency_hydrate e = e \<Longrightarrow>
   Emergency_hydrate (e\<lparr>e_resourcesNeeded := ns, e_matchedResources := ms\<rparr>)
     = e\<lparr>e_resourcesNeeded := ns, e_matchedResources := ms\<rparr>"
  by (cases e) (simp add: Emergency_hydrate_def)

lemma matchRefOfEmergency_emergencies:
  "emergencies s = emergencies t \<Longrightarrow> matchRefOfEmergency s eid rid = matchRefOfEmergency t eid rid"
  by (simp add: matchRefOfEmergency_def Emergency_findById_def)

lemma matchRefOfResource_resources:
  "resources s = resources t \<Longrightarrow> matchRefOfResource s rid eid = matchRefOfResource t rid eid"
  by (simp add: matchRefOfResource_def Resource_findById_def)

lemma emergency_entry_after_replace:
  assumes "Emergency_findById eid s = Some e"
    and "findByRef mr_resource rid (e_matchedResources e) = Inr (Some m)"
  shows "matchRefOfEmergency
           (replaceEmergency
              (e\<lparr>e_matchedResources :=
                  updateFirst (\<lambda>match. mr_resource match = Some rid)
                    (\<lambda>match. match\<lparr>mr_status := st\<rparr>) (e_matchedResources e)\<rparr>) s) eid rid
         = Some (m\<lparr>mr_status := st\<rparr>)"
proof -
  let ?e' = "e\<lparr>e_matchedResources :=
                  updateFirst (\<lambda>match. mr_resource match = Some rid)
                    (\<lambda>match. match\<lparr>mr_status := st\<rparr>) (e_matchedResources e)\<rparr>"
  have i: "e_id ?e' = Some eid" using Emergency_findById_id [OF assms(1)] by simp
  have h: "Emergency_hydrate ?e' = ?e'"
    using Emergency_findById_hydrated [OF assms(1)] by (rule hydrate_matchedResources)
  have f: "Emergency_findById eid (replaceEmergency ?e' s) = Some ?e'"
    using Emergency_findById_replace [OF assms(1) i] h by simp
  have "findByRef mr_resource rid (e_matchedResources ?e') = Inr (Some (m\<lparr>mr_status := st\<rparr>))"
    using findByRef_updateFirst [OF assms(2), of "\<lambda>match. match\<lparr>mr_status := st\<rparr>"] by simp
  then show ?thesis using f by (simp add: matchRefOfEmergency_def)
qed

lemma emergency_entry_after_delivery:
  assumes "Emergency_findById eid s = Some e"
    and "findByRef mr_resource rid (e_matchedResources e) = Inr (Some m)"
  shows "matchRefOfEmergency
           (replaceEmergency
              (e\<lparr>e_resourcesNeeded := ns,
                 e_matchedResources :=
                  updateFirst (\<lambda>match. mr_resource match = Some rid)
                    (\<lambda>match. match\<lparr>mr_status := st\<rparr>) (e_matchedResources e)\<rparr>) s) eid rid
         = Some (m\<lparr>mr_status := st\<rparr>)"
proof -
  let ?e' = "e\<lparr>e_resourcesNeeded := ns,
                 e_matchedResources :=
                  updateFirst (\<lambda>match. mr_resource match = Some rid)
                    (\<lambda>match. match\<lparr>mr_status := st\<rparr>) (e_matchedResources e)\<rparr>"
  have i: "e_id ?e' = Some eid" using Emergency_findById_id [OF assms(1)] by simp
  have h: "Emergency_hydrate ?e' = ?e'"
    using Emergency_findById_hydrated [OF assms(1)] by (rule hydrate_delivered)
  have f: "Emergency_findById eid (replaceEmergency ?e' s) = Some ?e'"
    using Emergency_findById_replace [OF assms(1) i] h by simp
  have "findByRef mr_resource rid (e_matchedResources ?e') = Inr (Some (m\<lparr>mr_status := st\<rparr>))"
    using findByRef_updateFirst [OF assms(2), of "\<lambda>match. match\<lparr>mr_status := st\<rparr>"] by simp
  then show ?thesis using f by (simp add: matchRefOfEmergency_def)
qed

lemma accept_copies:
  assumes "updateMatchStatus eid rid ''accept'' user s = (Ok, s')"
  shows "map_option mr_status (matchRefOfEmergency s' eid rid) = Some Accepted \<and>
         map_option me_emergency (lastMatchOfResource s' rid) = Some (Some eid) \<and>
         map_option me_status (lastMatchOfResource s' rid) = Some Accepted \<and>
         map_option me_matchScore (lastMatchOfResource s' rid)
           = map_option mr_matchScore (matchRefOfEmergency s' eid rid)"
proof -
  from assms obtain e m r where e: "Emergency_findById eid s = Some e"
    and a: "\<not> notAuthorized user (e_user e) (e_assignedTo e)"
    and f: "findByRef mr_resource rid (e_matchedResources e) = Inr (Some m)"
    and v: "Emergency_validate e"
    and r: "Resource_findById rid s = Some r"
    and w: "Resource_validate (r\<lparr>r_status := ''reserved''\<rparr>)"
    by (rule accept_Ok_inv)
  let ?e' = "e\<lparr>e_matchedResources :=
                updateFirst (\<lambda>match. mr_resource match = Some rid)
                  (\<lambda>match. match\<lparr>mr_status := Accepted\<rparr>) (e_matchedResources e)\<rparr>"
  let ?r' = "r\<lparr>r_status := ''reserved'',
             r_matchedEmergencies := r_matchedEmergencies r @
               [\<lparr>me_emergency = e_id e, me_status = Accepted, me_matchScore = mr_matchScore m\<rparr>]\<rparr>"
  have s': "s' = (replaceResource ?r' (replaceEmergency ?e' s))
        \<lparr>notifications := notifications s @
          [\<lparr>nt_type = ''match_accepted'', nt_title = ''Resource Match Accepted'',
            nt_user = r_user r, nt_emergency = e_id e, nt_resource = r_id r\<rparr>]\<rparr>"
    using accept_step [OF e a f v r w] assms by simp
  have em: "emergencies s' = emergencies (replaceEmergency ?e' s)"
    by (simp add: s' replaceResource_def)
  have E: "matchRefOfEmergency s' eid rid = Some (m\<lparr>mr_status := Accepted\<rparr>)"
    using matchRefOfEmergency_emergencies [OF em] emergency_entry_after_replace [OF e f] by simp
  have ri: "r_id ?r' = Some rid" using Resource_findById_id [OF r] by simp
  have "Resource_findById rid (replaceResource ?r' (replaceEmergency ?e' s)) = Some ?r'"
    by (rule Resource_findById_replace [OF _ ri]) (simp add: r)
  then have R: "Resource_findById rid s' = Some ?r'" by (simp add: s')
  have L: "lastMatchOfResource s' rid =
      Some \<lparr>me_emergency = e_id e, me_status = Accepted, me_matchScore = mr_matchScore m\<rparr>"
    by (simp add: lastMatchOfResource_def R)
  show ?thesis using E L Emergency_findById_id [OF e] by simp
qed

lemma deliver_copies:
  assumes "Resource_findById rid s = Some r"
    and "\<not> notAuthorized user (r_user r) (r_assignedTo r)"
    and "findByRef me_emergency eid (r_matchedEmergencies r) = Inr (Some m)"
    and "me_status m = Accepted"
    and "Resource_validate r"
    and "Emergency_findById eid s = Some e"
    and "findByRef mr_resource rid (e_matchedResources e) = Inr (Some m')"
    and "Emergency_validate e"
  shows "fst (markResourceDelivered rid eid user s) = Failed (Thrown ValidationError) \<and>
         matchRefOfResource (snd (markResourceDelivered rid eid user s)) rid eid
           = Some (m\<lparr>me_status := Delivered\<rparr>) \<and>
         matchRefOfEmergency (snd (markResourceDelivered rid eid user s)) eid rid
           = Some (m'\<lparr>mr_status := Delivered\<rparr>) \<and>
         map_option r_status (Resource_findById rid (snd (markResourceDelivered rid eid user s)))
           = Some ''delivered''"
proof -
  let ?r' = "r\<lparr>r_status := ''delivered'',
               r_matchedEmergencies :=
                 updateFirst (\<lambda>match. me_emergency match = Some eid)
                   (\<lambda>match. match\<lparr>me_status := Delivered\<rparr>) (r_matchedEmergencies r)\<rparr>"
  let ?ns = "updateFirst (\<lambda>need. n_type need = r_type r \<and> \<not> n_fulfilled need)
                 (\<lambda>need. need\<lparr>n_fulfilled := True\<rparr>) (e_resourcesNeeded e)"
  let ?e' = "e\<lparr>e_resourcesNeeded := ?ns,
             e_matchedResources :=
               updateFirst (\<lambda>match. mr_resource match = Some rid)
                 (\<lambda>match. match\<lparr>mr_status := Delivered\<rparr>) (e_matchedResources e)\<rparr>"
  have run: "markResourceDelivered rid eid user s =
      (Failed (Thrown ValidationError), replaceEmergency ?e' (replaceResource ?r' s))"
    using assms by (rule deliver_step)
  have ri: "r_id ?r' = Some rid" using Resource_findById_id [OF assms(1)] by simp
  have R: "Resource_findById rid (replaceEmergency ?e' (replaceResource ?r' s)) = Some ?r'"
    using Resource_findById_replace [OF assms(1) ri] by simp
  have "findByRef me_emergency eid (r_matchedEmergencies ?r') = Inr (Some (m\<lparr>me_status := Delivered\<rparr>))"
    using findByRef_updateFirst [OF assms(3), of "\<lambda>match. match\<lparr>me_status := Delivered\<rparr>"] by simp
  then have A: "matchRefOfResource (replaceEmergency ?e' (replaceResource ?r' s)) rid eid
      = Some (m\<lparr>me_status := Delivered\<rparr>)"
    using R by (simp add: matchRefOfResource_def)
  have e1: "Emergency_findById eid (replaceResource ?r' s) = Some e" using assms(6) by simp
  have B: "matchRefOfEmergency (replaceEmergency ?e' (replaceResource ?r' s)) eid rid
      = Some (m'\<lparr>mr_status := Delivered\<rparr>)"
    using emergency_entry_after_delivery [OF e1 assms(7)] .
  show ?thesis using A B R by (simp add: run)
qed

lemma one_sided_writes:
  "resources (snd (matchResourcesForEmergency M eid user s)) = resources s \<and>
   resources (snd (updateMatchStatus eid rid ''reject'' user s)) = resources s \<and>
   emergencies (snd (matchEmergenciesForResource M rid user s)) = emergencies s"
  by (simp add: matchResourcesForEmergency_def updateMatchStatus_def
      matchEmergenciesForResource_def Let_def emergency_save_def resource_save_def
      replaceEmergency_def replaceResource_def split: option.splits sum.splits)

lemma accept_emergencies:
  assumes "Emergency_findById eid s = Some e"
    and "\<not> notAuthorized user (e_user e) (e_assignedTo e)"
    and "findByRef mr_resource rid (e_matchedResources e) = Inr (Some m)"
    and "Emergency_validate e"
  shows "emergencies (snd (updateMatchStatus eid rid ''accept'' user s)) =
     emergencies (replaceEmergency
        (e\<lparr>e_matchedResources :=
            updateFirst (\<lambda>match. mr_resource match = Some rid)
              (\<lambda>match. match\<lparr>mr_status := Accepted\<rparr>) (e_matchedResources e)\<rparr>) s)"
  using assms
  by (simp add: updateMatchStatus_def Let_def emergency_save_def resource_save_def
      Notification_create_def replaceResource_def split: option.splits)

lemma accept_any_status:
  assumes "Emergency_findById eid s = Some e"
    and "\<not> notAuthorized user (e_user e) (e_assignedTo e)"
    and "findByRef mr_resource rid (e_matchedResources e) = Inr (Some m)"
    and "Emergency_validate e"
  shows "map_option mr_status
           (matchRefOfEmergency (snd (updateMatchStatus eid rid ''accept'' user s)) eid rid)
         = Some Accepted"
  using matchRefOfEmergency_emergencies [OF accept_emergencies [OF assms]]
    emergency_entry_after_replace [OF assms(1) assms(3), of Accepted]
  by simp

lemma reject_any_status:
  assumes "Emergency_findById eid s = Some e"
    and "\<not> notAuthorized user (e_user e) (e_assignedTo e)"
    and "findByRef mr_resource rid (e_matchedResources e) = Inr (Some m)"
    and "Emergency_validate e"
  shows "fst (updateMatchStatus eid rid ''reject'' user s) = Ok \<and>
         map_option mr_status
           (matchRefOfEmergency (snd (updateMatchStatus eid rid ''reject'' user s)) eid rid)
         = Some Rejected"
  using reject_step [OF assms] emergency_entry_after_replace [OF assms(1) assms(3), of Rejected]
  by simp

lemma updateResourceMatch_any_status:
  assumes "isValid eid"
    and "Emergency_findById eid s = Some e"
    and "findByRef mr_resource rid (e_matchedResources e) = Inr (Some m)"
    and "Emergency_validate e"
  shows "fst (updateResourceMatch isValid eid rid st s) = Ok \<and>
         map_option mr_status
           (matchRefOfEmergency (snd (updateResourceMatch isValid eid rid st s)) eid rid)
         = Some st"
  using updateResourceMatch_step [of isValid eid s e rid m st] assms
    emergency_entry_after_replace [OF assms(2) assms(3), of st]
  by simp

text \<open>
  What the ranking of a stored emergency can store. The emergency has no \<open>quantity\<close>,
  so the score of every resource whose distance is computed is NaN, and a list with such
  an entry is rejected when the emergency is saved.
\<close>

lemma jdiv_NaN_right [simp]: "jdiv x NaN = NaN"
  by (cases x) simp_all

lemma jmul_NaN_right [simp]: "jmul x NaN = NaN"
  by (cases x) simp_all

lemma jadd_NaN_right [simp]: "jadd x NaN = NaN"
  by (cases x) simp_all

lemma Math_min_NaN_right [simp]: "Math_min x NaN = NaN"
  by (cases x) simp_all

lemma Math_max_NaN_right [simp]: "Math_max x NaN = NaN"
  by (cases x) simp_all

lemma quantityScore_NaN [simp]: "quantityScore x NaN = NaN"
  by (simp add: quantityScore_def)

lemma scoreResource_no_quantity:
  assumes "scoreResource M e md r = Inr (Some m)" and "e_quantity e = NaN"
    and "r_id r \<noteq> Some ''resource1''" and "r_id r \<noteq> Some ''resource2''"
  shows "m_matchScore m = NaN"
  using assms by (auto simp: scoreResource_def Let_def split: if_splits sum.splits)

lemma findByRef_absent:
  "\<forall>x\<in>set xs. ref x \<noteq> None \<and> ref x \<noteq> Some i \<Longrightarrow> findByRef ref i xs = Inr None"
  by (induction xs) (auto split: option.splits)

lemma ranking_Ok_inv:
  assumes "matchResourcesForEmergency M eid user s = (Ok, s')"
  obtains e where "Emergency_findById eid s = Some e"
    and "Emergency_validate (e\<lparr>e_matchedResources :=
           map (\<lambda>match. \<lparr>mr_resource = r_id (m_resource match), mr_status = Pending,
                          mr_matchScore = m_matchScore match\<rparr>)
             (matchResourcesToEmergency M e
                (filter (\<lambda>r. r_status r = ''available'') (resources s)) 50)\<rparr>)"
    and "s' = replaceEmergency (e\<lparr>e_matchedResources :=
           map (\<lambda>match. \<lparr>mr_resource = r_id (m_resource match), mr_status = Pending,
                          mr_matchScore = m_matchScore match\<rparr>)
             (matchResourcesToEmergency M e
                (filter (\<lambda>r. r_status r = ''available'') (resources s)) 50)\<rparr>) s"
  using assms
  by (auto simp: matchResourcesForEmergency_def Let_def emergency_save_def
      split: option.splits if_splits)

lemma ranking_stores_no_entry:
  assumes "matchResourcesForEmergency M eid user s = (Ok, s')"
    and "rid \<noteq> ''resource1''" and "rid \<noteq> ''resource2''"
  shows "matchRefOfEmergency s' eid rid = None"
proof -
  let ?rs = "filter (\<lambda>r. r_status r = ''available'') (resources s)"
  from assms(1) obtain e where e: "Emergency_findById eid s = Some e"
    and v: "Emergency_validate (e\<lparr>e_matchedResources :=
           map (\<lambda>match. \<lparr>mr_resource = r_id (m_resource match), mr_status = Pending,
                          mr_matchScore = m_matchScore match\<rparr>)
             (matchResourcesToEmergency M e ?rs 50)\<rparr>)"
    and s': "s' = replaceEmergency (e\<lparr>e_matchedResources :=
           map (\<lambda>match. \<lparr>mr_resource = r_id (m_resource match), mr_status = Pending,
                          mr_matchScore = m_matchScore match\<rparr>)
             (matchResourcesToEmergency M e ?rs 50)\<rparr>) s"
    by (rule ranking_Ok_inv)
  let ?ms = "matchResourcesToEmergency M e ?rs 50"
  let ?e' = "e\<lparr>e_matchedResources :=
           map (\<lambda>match. \<lparr>mr_resource = r_id (m_resource match), mr_status = Pending,
                          mr_matchScore = m_matchScore match\<rparr>) ?ms\<rparr>"
  have q: "e_quantity e = NaN"
    using Emergency_findById_hydrated [OF e] by (cases e) (simp add: Emergency_hydrate_def)
  have mock: "r_id (m_resource x) = Some ''resource1'' \<or> r_id (m_resource x) = Some ''resource2''"
    if x: "x \<in> set ?ms" for x
  proof (rule ccontr)
    assume n: "\<not> (r_id (m_resource x) = Some ''resource1'' \<or> r_id (m_resource x) = Some ''resource2'')"
    from x obtain ms where "resourceMatches M e ?rs 50 = Some ms" and "x \<in> set ms"
      using matchResourcesToEmergency_set by blast
    then have sr: "scoreResource M e 50 (m_resource x) = Inr (Some x)"
      using resourceMatches_members by blast
    have "m_matchScore x = NaN" using scoreResource_no_quantity [OF sr q] n by blast
    moreover have "validScore (m_matchScore x)"
      using v x by (auto simp: Emergency_validate_def list_all_iff)
    ultimately show False by simp
  qed
  have "findByRef mr_resource rid (e_matchedResources ?e') = Inr None"
  proof (rule findByRef_absent, rule ballI)
    fix y assume "y \<in> set (e_matchedResources ?e')"
    then obtain x where "x \<in> set ?ms" and "mr_resource y = r_id (m_resource x)" by auto
    then show "mr_resource y \<noteq> None \<and> mr_resource y \<noteq> Some rid"
      using mock [of x] assms(2,3) by auto
  qed
  moreover have "Emergency_findById eid s' = Some ?e'"
    using Emergency_findById_replace [OF e, of ?e'] Emergency_findById_id [OF e]
      hydrate_matchedResources [OF Emergency_findById_hydrated [OF e]]
    by (simp add: s')
  ultimately show ?thesis by (simp add: matchRefOfEmergency_def)
qed

text \<open>
  The ranking of a resource: no stored emergency passes the test
  \<open>emergency.quantity <= resource.quantity\<close>, so the list that is stored is empty
  whenever the pool does not take the first branch.
\<close>

lemma matchingEmergencies_stored:
  "matchingEmergencies r (map Emergency_hydrate es) = []"
  by (induction es) (simp_all add: matchingEmergencies_def Emergency_hydrate_def)

lemma ranking_of_resource_empty:
  "\<not> mockBranch r (map Emergency_hydrate es) \<Longrightarrow>
   matchEmergenciesToResource M r (map Emergency_hydrate es) md = []"
  by (simp add: matchEmergenciesToResource_def emergencyMatches_def matchingEmergencies_stored
      List.map_filter_simps Array_sort_def)

section \<open>Lemmas: the rounding of the distance and the cut-off\<close>


lemma orZero_not_NaN [simp]: "orZero x \<noteq> NaN"
  by (cases x) simp_all

lemma jle_iff: "a \<noteq> NaN \<Longrightarrow> b \<noteq> NaN \<Longrightarrow> jle a b = (\<not> jgt a b)"
  by (cases a; cases b) simp_all

lemma candidateDistance_not_NaN: "candidateDistance M e r = Inr d \<Longrightarrow> d \<noteq> NaN"
  by (auto simp: candidateDistance_def split: option.splits prod.splits)



text \<open>The machine that adds too much, at two antipodal points of the equator.\<close>

lemma haversine_d_exRounding: "haversine_d exRounding 0 0 0 180 = NaN"
proof -
  have a: "haversine_a exRounding 0 0 0 180 = Num (1 + 1 / 2 ^ 52)"
    by (simp add: haversine_a_def exRounding_def exact_def deg2rad_def jsub_def Let_def)
  show ?thesis
    by (simp add: haversine_d_def Let_def a) (simp add: exRounding_def exact_def jsub_def)
qed

lemma rank_antipode:
  "matchResourcesToEmergency exRounding exEmergency [exResource\<lparr>r_location := Some (180, 0)\<rparr>] 50 =
     [\<lparr>m_resource = exResource\<lparr>r_location := Some (180, 0)\<rparr>, m_distance = Num 0,
       m_matchScore = Num 100\<rparr>]"
  by (simp add: matchResourcesToEmergency_def resourceMatches_def matchingResources_def
      scoreResource_def candidateDistance_def calculateDistance_def haversine_d_exRounding
      distanceScore_def quantityScore_def jsub_def Array_sort_def List.map_filter_simps
      exEmergency_def exResource_def exEid_def exRid_def)

section \<open>Lemmas: the example runs\<close>

lemmas schema_defs =
  Emergency_validate_def Resource_validate_def Notification_validate_def
  emergencyTypes_def emergencyStatuses_def urgencies_def resourceTypes_def
  resourceStatuses_def notificationTypes_def

lemmas store_defs =
  Emergency_findById_def Resource_findById_def Emergency_hydrate_def notAuthorized_def
  emergency_save_def resource_save_def Notification_create_def
  replaceEmergency_def replaceResource_def

lemmas example_defs =
  exEmergency_def exResource_def exAdmin_def exEid_def exRid_def

lemma exAdmin_authorized: "\<not> notAuthorized exAdmin owner assignedTo"
  by (simp add: notAuthorized_def exAdmin_def)

lemma exAccepted_run:
  "updateMatchStatus exEid exRid ''accept'' exAdmin exPending =
     (Ok, \<lparr>emergencies = [exEmergency\<lparr>e_quantity := NaN, e_matchedResources :=
              [\<lparr>mr_resource = Some exRid, mr_status = Accepted, mr_matchScore = Num 80\<rparr>]\<rparr>],
           resources = [exResource\<lparr>r_status := ''reserved'', r_matchedEmergencies :=
              [\<lparr>me_emergency = Some exEid, me_status = Accepted, me_matchScore = Num 80\<rparr>]\<rparr>],
           notifications = [\<lparr>nt_type = ''match_accepted'', nt_title = ''Resource Match Accepted'',
              nt_user = r_user exResource, nt_emergency = Some exEid,
              nt_resource = Some exRid\<rparr>]\<rparr>)"
  by (simp add: exPending_def updateMatchStatus_def store_defs schema_defs example_defs)

lemma exAccepted_eq:
  "exAccepted =
     \<lparr>emergencies = [exEmergency\<lparr>e_quantity := NaN, e_matchedResources :=
              [\<lparr>mr_resource = Some exRid, mr_status = Accepted, mr_matchScore = Num 80\<rparr>]\<rparr>],
           resources = [exResource\<lparr>r_status := ''reserved'', r_matchedEmergencies :=
              [\<lparr>me_emergency = Some exEid, me_status = Accepted, me_matchScore = Num 80\<rparr>]\<rparr>],
           notifications = [\<lparr>nt_type = ''match_accepted'', nt_title = ''Resource Match Accepted'',
              nt_user = r_user exResource, nt_emergency = Some exEid,
              nt_resource = Some exRid\<rparr>]\<rparr>"
  by (simp add: exAccepted_def exAccepted_run)

lemma exRejected_run:
  "updateMatchStatus exEid exRid ''reject'' exAdmin exAccepted =
     (Ok, \<lparr>emergencies = [exEmergency\<lparr>e_quantity := NaN, e_matchedResources :=
              [\<lparr>mr_resource = Some exRid, mr_status = Rejected, mr_matchScore = Num 80\<rparr>]\<rparr>],
           resources = [exResource\<lparr>r_status := ''reserved'', r_matchedEmergencies :=
              [\<lparr>me_emergency = Some exEid, me_status = Accepted, me_matchScore = Num 80\<rparr>]\<rparr>],
           notifications = [\<lparr>nt_type = ''match_accepted'', nt_title = ''Resource Match Accepted'',
              nt_user = r_user exResource, nt_emergency = Some exEid,
              nt_resource = Some exRid\<rparr>]\<rparr>)"
  by (simp add: exAccepted_eq updateMatchStatus_def store_defs schema_defs example_defs)

lemma exRejected_eq:
  "exRejected =
     \<lparr>emergencies = [exEmergency\<lparr>e_quantity := NaN, e_matchedResources :=
              [\<lparr>mr_resource = Some exRid, mr_status = Rejected, mr_matchScore = Num 80\<rparr>]\<rparr>],
           resources = [exResource\<lparr>r_status := ''reserved'', r_matchedEmergencies :=
              [\<lparr>me_emergency = Some exEid, me_status = Accepted, me_matchScore = Num 80\<rparr>]\<rparr>],
           notifications = [\<lparr>nt_type = ''match_accepted'', nt_title = ''Resource Match Accepted'',
              nt_user = r_user exResource, nt_emergency = Some exEid,
              nt_resource = Some exRid\<rparr>]\<rparr>"
  by (simp add: exRejected_def exRejected_run)

lemma exRejected_refs:
  "matchRefOfEmergency exRejected exEid exRid =
     Some \<lparr>mr_resource = Some exRid, mr_status = Rejected, mr_matchScore = Num 80\<rparr>"
  "matchRefOfResource exRejected exRid exEid =
     Some \<lparr>me_emergency = Some exEid, me_status = Accepted, me_matchScore = Num 80\<rparr>"
  by (simp_all add: exRejected_eq matchRefOfEmergency_def matchRefOfResource_def
      store_defs example_defs)

lemma exReaccepted_run:
  "updateMatchStatus exEid exRid ''accept'' exAdmin exRejected =
     (Ok, \<lparr>emergencies = [exEmergency\<lparr>e_quantity := NaN, e_matchedResources :=
              [\<lparr>mr_resource = Some exRid, mr_status = Accepted, mr_matchScore = Num 80\<rparr>]\<rparr>],
           resources = [exResource\<lparr>r_status := ''reserved'', r_matchedEmergencies :=
              [\<lparr>me_emergency = Some exEid, me_status = Accepted, me_matchScore = Num 80\<rparr>,
               \<lparr>me_emergency = Some exEid, me_status = Accepted, me_matchScore = Num 80\<rparr>]\<rparr>],
           notifications = [\<lparr>nt_type = ''match_accepted'', nt_title = ''Resource Match Accepted'',
              nt_user = r_user exResource, nt_emergency = Some exEid, nt_resource = Some exRid\<rparr>,
              \<lparr>nt_type = ''match_accepted'', nt_title = ''Resource Match Accepted'',
              nt_user = r_user exResource, nt_emergency = Some exEid,
              nt_resource = Some exRid\<rparr>]\<rparr>)"
  by (simp add: exRejected_eq updateMatchStatus_def store_defs schema_defs example_defs)

lemma exReset_run:
  "updateResourceMatch (\<lambda>i. length i = 24) exEid exRid Pending exAccepted =
     (Ok, \<lparr>emergencies = [exEmergency\<lparr>e_quantity := NaN, e_matchedResources :=
              [\<lparr>mr_resource = Some exRid, mr_status = Pending, mr_matchScore = Num 80\<rparr>]\<rparr>],
           resources = [exResource\<lparr>r_status := ''reserved'', r_matchedEmergencies :=
              [\<lparr>me_emergency = Some exEid, me_status = Accepted, me_matchScore = Num 80\<rparr>]\<rparr>],
           notifications = [\<lparr>nt_type = ''match_accepted'', nt_title = ''Resource Match Accepted'',
              nt_user = r_user exResource, nt_emergency = Some exEid,
              nt_resource = Some exRid\<rparr>]\<rparr>)"
  by (simp add: exAccepted_eq updateResourceMatch_def store_defs schema_defs example_defs)

lemma exReset_eq:
  "exReset =
     \<lparr>emergencies = [exEmergency\<lparr>e_quantity := NaN, e_matchedResources :=
              [\<lparr>mr_resource = Some exRid, mr_status = Pending, mr_matchScore = Num 80\<rparr>]\<rparr>],
           resources = [exResource\<lparr>r_status := ''reserved'', r_matchedEmergencies :=
              [\<lparr>me_emergency = Some exEid, me_status = Accepted, me_matchScore = Num 80\<rparr>]\<rparr>],
           notifications = [\<lparr>nt_type = ''match_accepted'', nt_title = ''Resource Match Accepted'',
              nt_user = r_user exResource, nt_emergency = Some exEid,
              nt_resource = Some exRid\<rparr>]\<rparr>"
  by (simp add: exReset_def exReset_run)

lemma exReset_refs:
  "matchRefOfEmergency exReset exEid exRid =
     Some \<lparr>mr_resource = Some exRid, mr_status = Pending, mr_matchScore = Num 80\<rparr>"
  "matchRefOfResource exReset exRid exEid =
     Some \<lparr>me_emergency = Some exEid, me_status = Accepted, me_matchScore = Num 80\<rparr>"
  by (simp_all add: exReset_eq matchRefOfEmergency_def matchRefOfResource_def
      store_defs example_defs)

lemma exDelivered_run:
  "markResourceDelivered exRid exEid exAdmin exAccepted =
     (Failed (Thrown ValidationError),
      \<lparr>emergencies = [exEmergency\<lparr>e_quantity := NaN,
              e_resourcesNeeded := [\<lparr>n_type = ''medical'', n_quantity = 10, n_fulfilled = True\<rparr>],
              e_matchedResources :=
              [\<lparr>mr_resource = Some exRid, mr_status = Delivered, mr_matchScore = Num 80\<rparr>]\<rparr>],
           resources = [exResource\<lparr>r_status := ''delivered'', r_matchedEmergencies :=
              [\<lparr>me_emergency = Some exEid, me_status = Delivered, me_matchScore = Num 80\<rparr>]\<rparr>],
           notifications = [\<lparr>nt_type = ''match_accepted'', nt_title = ''Resource Match Accepted'',
              nt_user = r_user exResource, nt_emergency = Some exEid,
              nt_resource = Some exRid\<rparr>]\<rparr>)"
  by (simp add: exAccepted_eq markResourceDelivered_def store_defs schema_defs example_defs)

lemma exReset_delivered_run:
  "markResourceDelivered exRid exEid exAdmin exReset =
     (Failed (Thrown ValidationError),
      \<lparr>emergencies = [exEmergency\<lparr>e_quantity := NaN,
              e_resourcesNeeded := [\<lparr>n_type = ''medical'', n_quantity = 10, n_fulfilled = True\<rparr>],
              e_matchedResources :=
              [\<lparr>mr_resource = Some exRid, mr_status = Delivered, mr_matchScore = Num 80\<rparr>]\<rparr>],
           resources = [exResource\<lparr>r_status := ''delivered'', r_matchedEmergencies :=
              [\<lparr>me_emergency = Some exEid, me_status = Delivered, me_matchScore = Num 80\<rparr>]\<rparr>],
           notifications = [\<lparr>nt_type = ''match_accepted'', nt_title = ''Resource Match Accepted'',
              nt_user = r_user exResource, nt_emergency = Some exEid,
              nt_resource = Some exRid\<rparr>]\<rparr>)"
  by (simp add: exReset_eq markResourceDelivered_def store_defs schema_defs example_defs)

lemma exPendingResource_entry:
  "Resource_findById exRid exPendingResource =
     Some (exResource\<lparr>r_matchedEmergencies :=
        [\<lparr>me_emergency = Some exEid, me_status = Pending, me_matchScore = Num 90\<rparr>]\<rparr>)"
  "findByRef me_emergency exEid
     (r_matchedEmergencies (exResource\<lparr>r_matchedEmergencies :=
        [\<lparr>me_emergency = Some exEid, me_status = Pending, me_matchScore = Num 90\<rparr>]\<rparr>))
     = Inr (Some \<lparr>me_emergency = Some exEid, me_status = Pending, me_matchScore = Num 90\<rparr>)"
  by (simp_all add: exPendingResource_def Resource_findById_def example_defs)

lemma exNoAddress_run:
  "updateMatchStatus exEid exRid ''accept'' exAdmin exPendingNoAddress =
     (Failed (Thrown ValidationError),
      \<lparr>emergencies = [exEmergency\<lparr>e_quantity := NaN, e_matchedResources :=
              [\<lparr>mr_resource = Some exRid, mr_status = Accepted, mr_matchScore = Num 80\<rparr>]\<rparr>],
           resources = [exResource\<lparr>r_address := None\<rparr>], notifications = []\<rparr>)"
  by (simp add: exPendingNoAddress_def exPending_def updateMatchStatus_def store_defs
      schema_defs example_defs)

lemma exTwice_run:
  "acceptTwice exEid exRid exAdmin exAdmin exPending =
     ((Ok, Ok),
      \<lparr>emergencies = [exEmergency\<lparr>e_quantity := NaN, e_matchedResources :=
              [\<lparr>mr_resource = Some exRid, mr_status = Accepted, mr_matchScore = Num 80\<rparr>]\<rparr>],
           resources = [exResource\<lparr>r_status := ''reserved'', r_matchedEmergencies :=
              [\<lparr>me_emergency = Some exEid, me_status = Accepted, me_matchScore = Num 80\<rparr>,
               \<lparr>me_emergency = Some exEid, me_status = Accepted, me_matchScore = Num 80\<rparr>]\<rparr>],
           notifications = [\<lparr>nt_type = ''match_accepted'', nt_title = ''Resource Match Accepted'',
              nt_user = r_user exResource, nt_emergency = Some exEid, nt_resource = Some exRid\<rparr>,
              \<lparr>nt_type = ''match_accepted'', nt_title = ''Resource Match Accepted'',
              nt_user = r_user exResource, nt_emergency = Some exEid,
              nt_resource = Some exRid\<rparr>]\<rparr>)"
proof -
  have "updateMatchStatus exEid exRid ''accept'' exAdmin exAccepted
      = updateMatchStatus exEid exRid ''accept'' exAdmin exRejected"
    by (simp add: exRejected_eq exAccepted_eq updateMatchStatus_def store_defs schema_defs
        example_defs)
  then show ?thesis
    by (simp add: acceptTwice_def exAccepted_run exAccepted_eq [symmetric] exReaccepted_run)
qed

text \<open>The ranking of the stored emergency, and the three requests in a row.\<close>

lemma rank_stored:
  "matchResourcesToEmergency exact (Emergency_hydrate exEmergency) [exResource] 50 =
     [\<lparr>m_resource = exResource, m_distance = Num 0, m_matchScore = NaN\<rparr>]"
  by (simp add: matchResourcesToEmergency_def resourceMatches_def matchingResources_def
      scoreResource_def candidateDistance_def calculateDistance_same_point
      distanceScore_def jsub_def Array_sort_def List.map_filter_simps
      Emergency_hydrate_def exEmergency_def exResource_def exEid_def exRid_def)

lemma exStore_ranking:
  "matchResourcesForEmergency exact exEid exAdmin exStore = (Failed (Thrown ValidationError), exStore)"
proof -
  have f: "Emergency_findById exEid exStore = Some (Emergency_hydrate exEmergency)"
    by (simp add: Emergency_findById_def exStore_def Emergency_hydrate_def exEmergency_def)
  have p: "filter (\<lambda>r. r_status r = ''available'') (resources exStore) = [exResource]"
    by (simp add: exStore_def exResource_def)
  show ?thesis
    by (simp add: matchResourcesForEmergency_def f exAdmin_authorized p rank_stored Let_def)
       (simp add: emergency_save_def Emergency_validate_def)
qed

lemma exStore_ranking_of_resource:
  "matchEmergenciesForResource exact exRid exAdmin exStore = (Ok, exStore)"
proof -
  have f: "Resource_findById exRid exStore = Some exResource"
    by (simp add: Resource_findById_def exStore_def exResource_def)
  have m: "\<not> mockBranch exResource (map Emergency_hydrate [Emergency_hydrate exEmergency])"
    by (simp add: mockBranch_def exResource_def)
  have p: "filter (\<lambda>e. e_status e = ''active'') (emergencies exStore) = [Emergency_hydrate exEmergency]"
    by (simp add: exStore_def Emergency_hydrate_def exEmergency_def)
  have v: "Resource_validate (exResource\<lparr>r_matchedEmergencies := []\<rparr>)"
    by (simp add: schema_defs exResource_def)
  have e: "exResource\<lparr>r_matchedEmergencies := []\<rparr> = exResource" by (simp add: exResource_def)
  show ?thesis
    using ranking_of_resource_empty [OF m, of exact 50]
    by (simp add: matchEmergenciesForResource_def f exAdmin_authorized p Let_def resource_save_def v)
       (simp add: e replaceResource_def exStore_def exResource_def)
qed

lemma exStore_round_trip:
  "proposeAcceptDeliver exact exEid exRid exAdmin exAdmin exStore =
     ((Failed (Thrown ValidationError), Failed (ErrorResponse 404), Failed (ErrorResponse 404)),
      exStore)"
proof -
  have a: "updateMatchStatus exEid exRid ''accept'' exAdmin exStore = (Failed (ErrorResponse 404), exStore)"
    by (simp add: updateMatchStatus_def exStore_def store_defs example_defs)
  have d: "markResourceDelivered exRid exEid exAdmin exStore = (Failed (ErrorResponse 404), exStore)"
    by (simp add: markResourceDelivered_def exStore_def store_defs example_defs)
  show ?thesis by (simp add: proposeAcceptDeliver_def exStore_ranking a d)
qed

section \<open>The ranked lists: order, cut-off and score range\<close>

text \<open>
  C3 (amended). Both matching functions end with \<open>matches.sort((a, b) => b.matchScore -
  a.matchScore)\<close> and nothing else: when no score of the list is NaN, the list is sorted
  descending by \<open>matchScore\<close>, and the entries that share a score keep the order their
  candidates have in the pool (the sort is stable). There is no tie-break by distance.
  In \<open>matchEmergenciesToResource\<close> the order of the pool is that of the emergencies
  themselves unless the first branch returned its single entry. This holds on every
  machine.
\<close>

theorem ranking_sorted_by_score_ties_in_pool_order:
  assumes "\<forall>m\<in>set (matchResourcesToEmergency M e rs md). m_matchScore m \<noteq> NaN"
    and "\<forall>m\<in>set (matchEmergenciesToResource M r es md'). em_matchScore m \<noteq> NaN"
  shows "sorted_wrt (\<lambda>a b. jge (m_matchScore a) (m_matchScore b))
           (matchResourcesToEmergency M e rs md) \<and>
         subseq (map m_resource (filter (\<lambda>m. m_matchScore m = k)
           (matchResourcesToEmergency M e rs md))) rs \<and>
         sorted_wrt (\<lambda>a b. jge (em_matchScore a) (em_matchScore b))
           (matchEmergenciesToResource M r es md') \<and>
         (\<not> mockBranch r es \<longrightarrow>
           subseq (map em_emergency (filter (\<lambda>m. em_matchScore m = k')
             (matchEmergenciesToResource M r es md'))) es)"
  using resource_ranking_sorted [OF assms(1)] resource_ranking_ties [OF assms(1)]
    emergency_ranking_sorted [OF assms(2)] emergency_ranking_ties [OF assms(2)]
  by blast

theorem ranking_sorted_by_score_ties_in_pool_order_witness:
  "map m_matchScore (matchResourcesToEmergency exact exEmergency [exNear, exResource] 50)
     = [Num 100, Num 100] \<and>
   map em_matchScore (matchEmergenciesToResource exact exResource [exEmergency] 50) = [Num 90] \<and>
   \<not> mockBranch exResource [exEmergency] \<and>
   sorted_wrt (\<lambda>a b. jge (m_matchScore a) (m_matchScore b))
     (matchResourcesToEmergency exact exEmergency [exNear, exResource] 50) \<and>
   subseq (map m_resource (filter (\<lambda>m. m_matchScore m = Num 100)
     (matchResourcesToEmergency exact exEmergency [exNear, exResource] 50))) [exNear, exResource] \<and>
   sorted_wrt (\<lambda>a b. jge (em_matchScore a) (em_matchScore b))
     (matchEmergenciesToResource exact exResource [exEmergency] 50) \<and>
   subseq (map em_emergency (filter (\<lambda>m. em_matchScore m = Num 90)
     (matchEmergenciesToResource exact exResource [exEmergency] 50))) [exEmergency]"
proof -
  have h1: "\<forall>m\<in>set (matchResourcesToEmergency exact exEmergency [exNear, exResource] 50).
      m_matchScore m \<noteq> NaN"
    by (simp add: rank_exNear_exResource)
  have h2: "\<forall>m\<in>set (matchEmergenciesToResource exact exResource [exEmergency] 50).
      em_matchScore m \<noteq> NaN"
    by (simp add: rank_exEmergency)
  have h3: "\<not> mockBranch exResource [exEmergency]"
    by (simp add: mockBranch_def exResource_def)
  have "map m_matchScore (matchResourcesToEmergency exact exEmergency [exNear, exResource] 50)
     = [Num 100, Num 100]"
    and "map em_matchScore (matchEmergenciesToResource exact exResource [exEmergency] 50)
     = [Num 90]"
    by (simp_all add: rank_exNear_exResource rank_exEmergency)
  then show ?thesis
    using h3
      ranking_sorted_by_score_ties_in_pool_order
        [OF h1 h2, of "Num 100" "Num 90"]
    by blast
qed

text \<open>
  C3 as stated fails: \<open>exNear\<close> (0.01 km away) and \<open>exResource\<close> (0 km away) both
  score 100 for \<open>exEmergency\<close>, and the farther one comes first, as in the pool.
\<close>

theorem ties_by_distance_counterexample:
  "map m_matchScore (matchResourcesToEmergency exact exEmergency [exNear, exResource] 50)
     = [Num 100, Num 100] \<and>
   map m_distance (matchResourcesToEmergency exact exEmergency [exNear, exResource] 50)
     = [Num (1 / 100), Num 0] \<and>
   jgt (Num (1 / 100)) (Num 0)"
  by (simp add: rank_exNear_exResource)

text \<open>
  C4 (amended). An entry of \<open>matchResourcesToEmergency\<close> whose resource has neither the
  id \<open>resource1\<close> nor \<open>resource2\<close> carries the computed distance of its resource,
  and that distance does not exceed \<open>maxDistance\<close>; the same holds for every entry of
  \<open>matchEmergenciesToResource\<close> unless its first branch was taken. The entries for the
  two fixed ids, and the entry of the first branch, are returned without any cut-off.
  The computed distance is \<open>calculateDistance(...) || 0\<close>, on every machine.
\<close>

theorem cutoff_on_computed_distance:
  "(m \<in> set (matchResourcesToEmergency M e rs md) \<and>
    r_id (m_resource m) \<noteq> Some ''resource1'' \<and> r_id (m_resource m) \<noteq> Some ''resource2'' \<longrightarrow>
      candidateDistance M e (m_resource m) = Inr (m_distance m) \<and>
      jle (m_distance m) (Num md)) \<and>
   (m' \<in> set (matchEmergenciesToResource M r es md') \<and> \<not> mockBranch r es \<longrightarrow>
      candidateDistance M (em_emergency m') r = Inr (em_distance m') \<and>
      jle (em_distance m') (Num md'))"
proof (intro conjI impI)
  assume a: "m \<in> set (matchResourcesToEmergency M e rs md) \<and>
    r_id (m_resource m) \<noteq> Some ''resource1'' \<and> r_id (m_resource m) \<noteq> Some ''resource2''"
  then obtain ms where "resourceMatches M e rs md = Some ms" and "m \<in> set ms"
    using matchResourcesToEmergency_set by blast
  then have "scoreResource M e md (m_resource m) = Inr (Some m)"
    using resourceMatches_members by blast
  from scoreResource_entry [OF this] a
  have c: "candidateDistance M e (m_resource m) = Inr (m_distance m)"
    and g: "\<not> jgt (m_distance m) (Num md)"
    by simp_all
  show "candidateDistance M e (m_resource m) = Inr (m_distance m)" by (rule c)
  show "jle (m_distance m) (Num md)"
    using g candidateDistance_not_NaN [OF c] by (simp add: jle_iff)
next
  assume a: "m' \<in> set (matchEmergenciesToResource M r es md') \<and> \<not> mockBranch r es"
  then obtain ms where "emergencyMatches M r es md' = Some ms" and "m' \<in> set ms"
    using matchEmergenciesToResource_set by blast
  then have "scoreEmergency M r md' (em_emergency m') = Inr (Some m')"
    using emergencyMatches_members by blast
  from scoreEmergency_entry [OF this]
  have c: "candidateDistance M (em_emergency m') r = Inr (em_distance m')"
    and g: "\<not> jgt (em_distance m') (Num md')"
    by simp_all
  show "candidateDistance M (em_emergency m') r = Inr (em_distance m')" by (rule c)
  show "jle (em_distance m') (Num md')"
    using g candidateDistance_not_NaN [OF c] by (simp add: jle_iff)
qed

theorem cutoff_on_computed_distance_witness:
  "\<lparr>m_resource = exNear, m_distance = Num (1 / 100), m_matchScore = Num 100\<rparr>
      \<in> set (matchResourcesToEmergency exact exEmergency [exNear, exResource] 50) \<and>
   r_id exNear \<noteq> Some ''resource1'' \<and> r_id exNear \<noteq> Some ''resource2'' \<and>
   \<lparr>em_emergency = exEmergency, em_distance = Num 0, em_matchScore = Num 90\<rparr>
      \<in> set (matchEmergenciesToResource exact exResource [exEmergency] 50) \<and>
   \<not> mockBranch exResource [exEmergency] \<and>
   candidateDistance exact exEmergency exNear = Inr (Num (1 / 100)) \<and>
   jle (Num (1 / 100)) (Num 50) \<and>
   candidateDistance exact exEmergency exResource = Inr (Num 0) \<and> jle (Num 0) (Num 50)"
proof -
  have h1: "\<lparr>m_resource = exNear, m_distance = Num (1 / 100), m_matchScore = Num 100\<rparr>
      \<in> set (matchResourcesToEmergency exact exEmergency [exNear, exResource] 50)"
    by (simp add: rank_exNear_exResource)
  have h2: "r_id exNear \<noteq> Some ''resource1'' \<and> r_id exNear \<noteq> Some ''resource2''"
    by (simp add: exNear_def)
  have h3: "\<lparr>em_emergency = exEmergency, em_distance = Num 0, em_matchScore = Num 90\<rparr>
      \<in> set (matchEmergenciesToResource exact exResource [exEmergency] 50)"
    by (simp add: rank_exEmergency)
  have h4: "\<not> mockBranch exResource [exEmergency]"
    by (simp add: mockBranch_def exResource_def)
  show ?thesis
    using h1 h2 h3 h4
      cutoff_on_computed_distance
        [of "\<lparr>m_resource = exNear, m_distance = Num (1 / 100), m_matchScore = Num 100\<rparr>"
            exact exEmergency "[exNear, exResource]" 50
            "\<lparr>em_emergency = exEmergency, em_distance = Num 0, em_matchScore = Num 90\<rparr>"
            exResource "[exEmergency]" 50]
    by simp
qed

text \<open>
  C4 as stated fails: with \<open>maxDistance = 5\<close> the resource \<open>exFar\<close>, more than 100 km
  from the emergency and with the id \<open>resource2\<close>, is returned, with the distance 10.
\<close>

theorem cutoff_counterexample:
  "map m_resource (matchResourcesToEmergency exact exEmergency [exFar] 5) = [exFar] \<and>
   map m_distance (matchResourcesToEmergency exact exEmergency [exFar] 5) = [Num 10] \<and>
   jgt (Num 10) (Num 5) \<and>
   candidateDistance exact exEmergency exFar = Inr (calculateDistance exact 0 0 1 0) \<and>
   jgt (calculateDistance exact 0 0 1 0) (Num 5)"
proof -
  obtain d where d: "calculateDistance exact 0 0 1 0 = Num d" and far: "100 < d"
    using calculateDistance_one_degree by blast
  have "candidateDistance exact exEmergency exFar = Inr (calculateDistance exact 0 0 1 0)"
    using far by (simp add: candidateDistance_def d exEmergency_def exFar_def exResource_def)
  then show ?thesis using far by (simp add: rank_exFar d)
qed

text \<open>
  C5. Every \<open>matchScore\<close> should be an integer from 0 to 100. The code at an emergency
  and a resource that both have quantity 0: the ratio is \<open>0 / 0 = NaN\<close>, the clamp
  \<open>Math.max(0, Math.min(100, NaN))\<close> is NaN, and so is the score, in both directions.
\<close>

theorem score_NaN_at_zero_quantities:
  "map m_matchScore
     (matchResourcesToEmergency exact (exEmergency\<lparr>e_quantity := Num 0\<rparr>)
        [exResource\<lparr>r_quantity := Num 0\<rparr>] 50)
     = [NaN] \<and>
   map em_matchScore
     (matchEmergenciesToResource exact (exResource\<lparr>r_quantity := Num 0\<rparr>)
        [exEmergency\<lparr>e_quantity := Num 0\<rparr>] 50)
     = [NaN]"
  by (simp add: rank_zero_quantities rank_zero_quantities_emergency)




section \<open>The distance: rounded once, compared rounded\<close>




section \<open>The match life cycle\<close>

text \<open>
  C1 (amended). The two copies of a match are written together by two handlers only. An
  \<open>accept\<close> that is answered with 200 leaves the emergency's entry for the resource
  accepted and has appended to the resource an accepted entry for the emergency with
  that entry's score. A delivery that passes its guard, for a resource and an emergency
  that pass validation and an emergency that has an entry for the resource, leaves the
  resource's entry for the emergency and the emergency's entry for the resource
  delivered, each with the score it had; the request itself then ends with the
  ValidationError of the notification, whose type \<open>resource_delivered\<close> the schema
  does not have. The ranking of an emergency and \<open>reject\<close> write the emergency only,
  the ranking of a resource writes the resource only.
\<close>

theorem accept_and_deliver_write_both_copies:
  "(updateMatchStatus eid rid ''accept'' user s = (Ok, s') \<longrightarrow>
      map_option mr_status (matchRefOfEmergency s' eid rid) = Some Accepted \<and>
      map_option me_emergency (lastMatchOfResource s' rid) = Some (Some eid) \<and>
      map_option me_status (lastMatchOfResource s' rid) = Some Accepted \<and>
      map_option me_matchScore (lastMatchOfResource s' rid)
        = map_option mr_matchScore (matchRefOfEmergency s' eid rid)) \<and>
   (Resource_findById rid t = Some r \<and> \<not> notAuthorized user' (r_user r) (r_assignedTo r) \<and>
    findByRef me_emergency eid (r_matchedEmergencies r) = Inr (Some m) \<and>
    me_status m = Accepted \<and> Resource_validate r \<and>
    Emergency_findById eid t = Some e \<and>
    findByRef mr_resource rid (e_matchedResources e) = Inr (Some m') \<and>
    Emergency_validate e \<longrightarrow>
      fst (markResourceDelivered rid eid user' t) = Failed (Thrown ValidationError) \<and>
      matchRefOfResource (snd (markResourceDelivered rid eid user' t)) rid eid
        = Some (m\<lparr>me_status := Delivered\<rparr>) \<and>
      matchRefOfEmergency (snd (markResourceDelivered rid eid user' t)) eid rid
        = Some (m'\<lparr>mr_status := Delivered\<rparr>)) \<and>
   resources (snd (matchResourcesForEmergency M eid user u)) = resources u \<and>
   resources (snd (updateMatchStatus eid rid ''reject'' user u)) = resources u \<and>
   emergencies (snd (matchEmergenciesForResource M rid user u)) = emergencies u"
  using accept_copies [of eid rid user s s'] deliver_copies [of rid t r user' eid m e m']
    one_sided_writes [of M eid user u rid]
  by blast

theorem accept_and_deliver_write_both_copies_witness:
  "updateMatchStatus exEid exRid ''accept'' exAdmin exPending = (Ok, exAccepted) \<and>
   map_option mr_status (matchRefOfEmergency exAccepted exEid exRid) = Some Accepted \<and>
   map_option me_status (lastMatchOfResource exAccepted exRid) = Some Accepted \<and>
   map_option me_matchScore (lastMatchOfResource exAccepted exRid)
     = map_option mr_matchScore (matchRefOfEmergency exAccepted exEid exRid) \<and>
   map_option me_status (matchRefOfResource exAccepted exRid exEid) = Some Accepted \<and>
   fst (markResourceDelivered exRid exEid exAdmin exAccepted) = Failed (Thrown ValidationError) \<and>
   matchRefOfResource exDelivered exRid exEid
     = Some \<lparr>me_emergency = Some exEid, me_status = Delivered, me_matchScore = Num 80\<rparr> \<and>
   matchRefOfEmergency exDelivered exEid exRid
     = Some \<lparr>mr_resource = Some exRid, mr_status = Delivered, mr_matchScore = Num 80\<rparr>"
proof -
  let ?r = "exResource\<lparr>r_status := ''reserved'', r_matchedEmergencies :=
              [\<lparr>me_emergency = Some exEid, me_status = Accepted, me_matchScore = Num 80\<rparr>]\<rparr>"
  let ?e = "exEmergency\<lparr>e_quantity := NaN, e_matchedResources :=
              [\<lparr>mr_resource = Some exRid, mr_status = Accepted, mr_matchScore = Num 80\<rparr>]\<rparr>"
  let ?m = "\<lparr>me_emergency = Some exEid, me_status = Accepted, me_matchScore = Num 80\<rparr>"
  let ?m' = "\<lparr>mr_resource = Some exRid, mr_status = Accepted, mr_matchScore = Num 80\<rparr>"
  have a: "updateMatchStatus exEid exRid ''accept'' exAdmin exPending = (Ok, exAccepted)"
    by (simp add: exAccepted_run exAccepted_eq)
  have r: "Resource_findById exRid exAccepted = Some ?r"
    by (simp add: exAccepted_eq Resource_findById_def example_defs)
  have e: "Emergency_findById exEid exAccepted = Some ?e"
    by (simp add: exAccepted_eq Emergency_findById_def Emergency_hydrate_def example_defs)
  have fr: "findByRef me_emergency exEid (r_matchedEmergencies ?r) = Inr (Some ?m)" by simp
  have fe: "findByRef mr_resource exRid (e_matchedResources ?e) = Inr (Some ?m')" by simp
  have vr: "Resource_validate ?r" by (simp add: schema_defs example_defs)
  have ve: "Emergency_validate ?e" by (simp add: schema_defs example_defs)
  have st: "me_status ?m = Accepted" by simp
  have ra: "map_option me_status (matchRefOfResource exAccepted exRid exEid) = Some Accepted"
    by (simp add: matchRefOfResource_def r)
  note T = accept_and_deliver_write_both_copies
    [where eid = exEid and rid = exRid and user = exAdmin and s = exPending
       and s' = exAccepted and t = exAccepted and r = ?r and user' = exAdmin
       and m = ?m and e = ?e and m' = ?m' and M = exact and u = exStore]
  have A: "map_option mr_status (matchRefOfEmergency exAccepted exEid exRid) = Some Accepted \<and>
      map_option me_status (lastMatchOfResource exAccepted exRid) = Some Accepted \<and>
      map_option me_matchScore (lastMatchOfResource exAccepted exRid)
        = map_option mr_matchScore (matchRefOfEmergency exAccepted exEid exRid)"
    using T a by blast
  have D: "fst (markResourceDelivered exRid exEid exAdmin exAccepted)
        = Failed (Thrown ValidationError) \<and>
      matchRefOfResource (snd (markResourceDelivered exRid exEid exAdmin exAccepted)) exRid exEid
        = Some (?m\<lparr>me_status := Delivered\<rparr>) \<and>
      matchRefOfEmergency (snd (markResourceDelivered exRid exEid exAdmin exAccepted)) exEid exRid
        = Some (?m'\<lparr>mr_status := Delivered\<rparr>)"
    using T r e fr fe vr ve st exAdmin_authorized by blast
  show ?thesis using a A D ra by (simp add: exDelivered_def)
qed

text \<open>
  C1 as stated fails. In \<open>exAccepted\<close>, the store after an \<open>accept\<close>, both copies are
  accepted with the score 80. A \<open>reject\<close> of the same pair is answered with 200 and
  leaves the emergency's copy rejected and the resource's copy accepted.
\<close>

theorem mirrored_copies_disagree_counterexample:
  "fst (updateMatchStatus exEid exRid ''accept'' exAdmin exPending) = Ok \<and>
   matchRefOfEmergency exAccepted exEid exRid
     = Some \<lparr>mr_resource = Some exRid, mr_status = Accepted, mr_matchScore = Num 80\<rparr> \<and>
   matchRefOfResource exAccepted exRid exEid
     = Some \<lparr>me_emergency = Some exEid, me_status = Accepted, me_matchScore = Num 80\<rparr> \<and>
   fst (updateMatchStatus exEid exRid ''reject'' exAdmin exAccepted) = Ok \<and>
   map_option mr_status (matchRefOfEmergency exRejected exEid exRid) = Some Rejected \<and>
   map_option me_status (matchRefOfResource exRejected exRid exEid) = Some Accepted"
proof -
  have "matchRefOfEmergency exAccepted exEid exRid
     = Some \<lparr>mr_resource = Some exRid, mr_status = Accepted, mr_matchScore = Num 80\<rparr>"
    and "matchRefOfResource exAccepted exRid exEid
     = Some \<lparr>me_emergency = Some exEid, me_status = Accepted, me_matchScore = Num 80\<rparr>"
    by (simp_all add: exAccepted_eq matchRefOfEmergency_def matchRefOfResource_def
        store_defs example_defs)
  then show ?thesis by (simp add: exAccepted_run exRejected_run exRejected_refs)
qed

text \<open>
  C2 (amended). Delivery is the one guarded transition: when the resource's entry for the
  emergency is in any state but accepted, an authorised request fails with the 404
  response and the store is unchanged. \<open>accept\<close> and \<open>reject\<close> do not read the
  current status: on an entry of an emergency that passes validation, in any state, an
  authorised \<open>reject\<close> is answered with 200 and the entry becomes rejected; an
  authorised \<open>accept\<close> leaves the entry accepted whatever it answers, and it answers
  200 when the resource exists and passes validation; \<open>updateResourceMatch\<close> likewise
  writes any of the four states.
\<close>

theorem deliver_guarded_accept_reject_unguarded:
  "(Resource_findById rid s = Some r \<and> \<not> notAuthorized user (r_user r) (r_assignedTo r) \<and>
    findByRef me_emergency eid (r_matchedEmergencies r) = Inr (Some m) \<and>
    me_status m \<noteq> Accepted \<longrightarrow>
      markResourceDelivered rid eid user s = (Failed (ErrorResponse 404), s)) \<and>
   (Emergency_findById eid' t = Some e \<and> \<not> notAuthorized user' (e_user e) (e_assignedTo e) \<and>
    findByRef mr_resource rid' (e_matchedResources e) = Inr (Some m') \<and>
    Emergency_validate e \<longrightarrow>
      fst (updateMatchStatus eid' rid' ''reject'' user' t) = Ok \<and>
      map_option mr_status
        (matchRefOfEmergency (snd (updateMatchStatus eid' rid' ''reject'' user' t)) eid' rid')
        = Some Rejected \<and>
      map_option mr_status
        (matchRefOfEmergency (snd (updateMatchStatus eid' rid' ''accept'' user' t)) eid' rid')
        = Some Accepted \<and>
      (Resource_findById rid' t = Some r' \<and> Resource_validate r' \<longrightarrow>
         fst (updateMatchStatus eid' rid' ''accept'' user' t) = Ok) \<and>
      (isValid eid' \<longrightarrow>
         fst (updateResourceMatch isValid eid' rid' st t) = Ok \<and>
         map_option mr_status
           (matchRefOfEmergency (snd (updateResourceMatch isValid eid' rid' st t)) eid' rid')
           = Some st))"
proof (intro conjI impI)
  assume "Resource_findById rid s = Some r \<and> \<not> notAuthorized user (r_user r) (r_assignedTo r) \<and>
    findByRef me_emergency eid (r_matchedEmergencies r) = Inr (Some m) \<and> me_status m \<noteq> Accepted"
  then have "Resource_findById rid s = Some r"
    and "\<not> notAuthorized user (r_user r) (r_assignedTo r)"
    and "findByRef me_emergency eid (r_matchedEmergencies r) = Inr (Some m)"
    and "Some m = None \<or> map_option me_status (Some m) \<noteq> Some Accepted"
    by simp_all
  then show "markResourceDelivered rid eid user s = (Failed (ErrorResponse 404), s)"
    by (rule deliver_refused)
next
  assume h: "Emergency_findById eid' t = Some e \<and>
    \<not> notAuthorized user' (e_user e) (e_assignedTo e) \<and>
    findByRef mr_resource rid' (e_matchedResources e) = Inr (Some m') \<and> Emergency_validate e"
  then have h1: "Emergency_findById eid' t = Some e"
    and h2: "\<not> notAuthorized user' (e_user e) (e_assignedTo e)"
    and h3: "findByRef mr_resource rid' (e_matchedResources e) = Inr (Some m')"
    and h4: "Emergency_validate e"
    by simp_all
  have rj: "fst (updateMatchStatus eid' rid' ''reject'' user' t) = Ok \<and>
      map_option mr_status
        (matchRefOfEmergency (snd (updateMatchStatus eid' rid' ''reject'' user' t)) eid' rid')
        = Some Rejected"
    using h1 h2 h3 h4 by (rule reject_any_status)
  show "fst (updateMatchStatus eid' rid' ''reject'' user' t) = Ok" using rj by simp
  show "map_option mr_status
        (matchRefOfEmergency (snd (updateMatchStatus eid' rid' ''reject'' user' t)) eid' rid')
        = Some Rejected" using rj by simp
  show "map_option mr_status
        (matchRefOfEmergency (snd (updateMatchStatus eid' rid' ''accept'' user' t)) eid' rid')
        = Some Accepted"
    using h1 h2 h3 h4 by (rule accept_any_status)
  {
    assume r: "Resource_findById rid' t = Some r' \<and> Resource_validate r'"
    then have "Resource_validate (r'\<lparr>r_status := ''reserved''\<rparr>)"
      by (simp add: Resource_validate_reserved_of_valid)
    from accept_step [OF h1 h2 h3 h4 _ this] r
    show "fst (updateMatchStatus eid' rid' ''accept'' user' t) = Ok" by simp
  }
  {
    assume v: "isValid eid'"
    have up: "fst (updateResourceMatch isValid eid' rid' st t) = Ok \<and>
         map_option mr_status
           (matchRefOfEmergency (snd (updateResourceMatch isValid eid' rid' st t)) eid' rid')
           = Some st"
      using v h1 h3 h4 by (rule updateResourceMatch_any_status [of isValid eid' t e rid' m' st])
    show "fst (updateResourceMatch isValid eid' rid' st t) = Ok" using up by simp
    show "map_option mr_status
           (matchRefOfEmergency (snd (updateResourceMatch isValid eid' rid' st t)) eid' rid')
           = Some st" using up by simp
  }
qed

theorem deliver_guarded_accept_reject_unguarded_witness:
  "markResourceDelivered exRid exEid exAdmin exPendingResource
     = (Failed (ErrorResponse 404), exPendingResource) \<and>
   map_option mr_status (matchRefOfEmergency exRejected exEid exRid) = Some Rejected \<and>
   fst (updateMatchStatus exEid exRid ''reject'' exAdmin exRejected) = Ok \<and>
   map_option mr_status
     (matchRefOfEmergency (snd (updateMatchStatus exEid exRid ''reject'' exAdmin exRejected))
        exEid exRid) = Some Rejected \<and>
   fst (updateMatchStatus exEid exRid ''accept'' exAdmin exRejected) = Ok \<and>
   map_option mr_status
     (matchRefOfEmergency (snd (updateMatchStatus exEid exRid ''accept'' exAdmin exRejected))
        exEid exRid) = Some Accepted \<and>
   fst (updateResourceMatch (\<lambda>i. length i = 24) exEid exRid Pending exRejected) = Ok \<and>
   map_option mr_status
     (matchRefOfEmergency
        (snd (updateResourceMatch (\<lambda>i. length i = 24) exEid exRid Pending exRejected))
        exEid exRid) = Some Pending"
proof -
  let ?r = "exResource\<lparr>r_matchedEmergencies :=
              [\<lparr>me_emergency = Some exEid, me_status = Pending, me_matchScore = Num 90\<rparr>]\<rparr>"
  let ?m = "\<lparr>me_emergency = Some exEid, me_status = Pending, me_matchScore = Num 90\<rparr>"
  let ?e = "exEmergency\<lparr>e_quantity := NaN, e_matchedResources :=
              [\<lparr>mr_resource = Some exRid, mr_status = Rejected, mr_matchScore = Num 80\<rparr>]\<rparr>"
  let ?m' = "\<lparr>mr_resource = Some exRid, mr_status = Rejected, mr_matchScore = Num 80\<rparr>"
  let ?r' = "exResource\<lparr>r_status := ''reserved'', r_matchedEmergencies :=
              [\<lparr>me_emergency = Some exEid, me_status = Accepted, me_matchScore = Num 80\<rparr>]\<rparr>"
  have e: "Emergency_findById exEid exRejected = Some ?e"
    by (simp add: exRejected_eq Emergency_findById_def Emergency_hydrate_def example_defs)
  have fe: "findByRef mr_resource exRid (e_matchedResources ?e) = Inr (Some ?m')" by simp
  have ve: "Emergency_validate ?e" by (simp add: schema_defs example_defs)
  have r': "Resource_findById exRid exRejected = Some ?r'"
    by (simp add: exRejected_eq Resource_findById_def example_defs)
  have vr: "Resource_validate ?r'" by (simp add: schema_defs example_defs)
  have v: "length exEid = 24" by (simp add: exEid_def)
  have ns: "me_status ?m \<noteq> Accepted" by simp
  note T = deliver_guarded_accept_reject_unguarded
    [where rid = exRid and s = exPendingResource and r = ?r and user = exAdmin
       and eid = exEid and m = ?m and eid' = exEid and t = exRejected and e = ?e
       and user' = exAdmin and rid' = exRid and m' = ?m' and r' = ?r'
       and isValid = "\<lambda>i. length i = 24" and st = Pending]
  have "map_option mr_status (matchRefOfEmergency exRejected exEid exRid) = Some Rejected"
    by (simp add: exRejected_refs)
  then show ?thesis
    using T exPendingResource_entry e fe ve r' vr v ns exAdmin_authorized by blast
qed

text \<open>
  C2 as stated fails: on the rejected match of \<open>exRejected\<close> an \<open>accept\<close> succeeds,
  the entry becomes accepted and the store changes.
\<close>

theorem transition_from_terminal_counterexample:
  "map_option mr_status (matchRefOfEmergency exRejected exEid exRid) = Some Rejected \<and>
   fst (updateMatchStatus exEid exRid ''accept'' exAdmin exRejected) = Ok \<and>
   map_option mr_status
     (matchRefOfEmergency (snd (updateMatchStatus exEid exRid ''accept'' exAdmin exRejected))
        exEid exRid) = Some Accepted \<and>
   snd (updateMatchStatus exEid exRid ''accept'' exAdmin exRejected) \<noteq> exRejected"
  by (simp add: exRejected_refs exReaccepted_run)
     (simp add: matchRefOfEmergency_def store_defs example_defs exRejected_eq)

text \<open>
  C7 (amended). The guard of the delivery reads the resource's entry for the emergency
  and nothing else. When that entry is pending, or when the resource has no entry for
  the emergency, the request ends with the 404 response "not matched or accepted", the
  code's form of InvalidTransition, or with 401 for a user who may not deliver at all,
  and the store returned is the store given: no resource status, no \<open>resourcesNeeded\<close>
  entry and no copy of the match has changed.
\<close>

theorem deliver_on_pending_refused:
  assumes "Resource_findById rid s = Some r"
    and "findByRef me_emergency eid (r_matchedEmergencies r) = Inr found"
    and "found = None \<or> map_option me_status found = Some Pending"
  shows "markResourceDelivered rid eid user s =
     (Failed (ErrorResponse (if notAuthorized user (r_user r) (r_assignedTo r) then 401 else 404)), s)"
proof (cases "notAuthorized user (r_user r) (r_assignedTo r)")
  case True
  then show ?thesis using assms(1) by (simp add: markResourceDelivered_def)
next
  case False
  have "found = None \<or> map_option me_status found \<noteq> Some Accepted"
    using assms(3) by auto
  from deliver_refused [OF assms(1) False assms(2) this] False show ?thesis by simp
qed

theorem deliver_on_pending_refused_witness:
  "map_option me_status (matchRefOfResource exPendingResource exRid exEid) = Some Pending \<and>
   markResourceDelivered exRid exEid exAdmin exPendingResource
     = (Failed (ErrorResponse 404), exPendingResource)"
proof -
  have p: "map_option me_status (matchRefOfResource exPendingResource exRid exEid) = Some Pending"
    by (simp add: matchRefOfResource_def exPendingResource_entry)
  have "markResourceDelivered exRid exEid exAdmin exPendingResource
     = (Failed (ErrorResponse 404), exPendingResource)"
    using deliver_on_pending_refused
      [OF exPendingResource_entry(1) exPendingResource_entry(2), of exAdmin]
    by (simp add: exAdmin_authorized)
  then show ?thesis using p by simp
qed

text \<open>
  C7 as stated fails for a pair that is pending in the emergency's copy. In \<open>exReset\<close>,
  the store after an \<open>accept\<close> and the status \<open>pending\<close> written by
  \<open>updateResourceMatch\<close>, the emergency's entry is pending and the resource's is
  accepted. The delivery passes its guard: the resource becomes delivered, the need of
  the emergency fulfilled and the emergency's entry delivered, before the request ends
  with the ValidationError of the notification.
\<close>

theorem deliver_on_pending_emergency_copy_counterexample:
  "fst (updateResourceMatch (\<lambda>i. length i = 24) exEid exRid Pending exAccepted) = Ok \<and>
   map_option mr_status (matchRefOfEmergency exReset exEid exRid) = Some Pending \<and>
   map_option r_status (Resource_findById exRid exReset) = Some ''reserved'' \<and>
   map_option (\<lambda>e. map n_fulfilled (e_resourcesNeeded e)) (Emergency_findById exEid exReset)
     = Some [False] \<and>
   fst (markResourceDelivered exRid exEid exAdmin exReset) = Failed (Thrown ValidationError) \<and>
   map_option r_status
     (Resource_findById exRid (snd (markResourceDelivered exRid exEid exAdmin exReset)))
     = Some ''delivered'' \<and>
   map_option (\<lambda>e. map n_fulfilled (e_resourcesNeeded e))
     (Emergency_findById exEid (snd (markResourceDelivered exRid exEid exAdmin exReset)))
     = Some [True] \<and>
   map_option mr_status
     (matchRefOfEmergency (snd (markResourceDelivered exRid exEid exAdmin exReset)) exEid exRid)
     = Some Delivered"
  by (simp add: exReset_run exReset_refs exReset_delivered_run)
     (simp add: exReset_eq matchRefOfEmergency_def store_defs example_defs)

text \<open>
  C8. The round trip should end with both copies delivered. The code at a store with one
  active emergency and one available resource of its type at the same place, all three
  requests made by an admin: the ranking scores the resource NaN, because the stored
  emergency has no \<open>quantity\<close>, and the save of the emergency is rejected; \<open>accept\<close>
  and the delivery then find no entry and answer 404. The store is left as it was, with
  no copy of the match on either side. And where a pending entry is stored by other
  means (\<open>exPending\<close>), \<open>accept\<close> is answered with 200 and the delivery writes both
  copies but ends with the ValidationError of its notification.
\<close>

theorem round_trip_fails_at_proposal:
  "proposeAcceptDeliver exact exEid exRid exAdmin exAdmin exStore =
     ((Failed (Thrown ValidationError), Failed (ErrorResponse 404), Failed (ErrorResponse 404)),
      exStore) \<and>
   matchRefOfEmergency exStore exEid exRid = None \<and>
   matchRefOfResource exStore exRid exEid = None \<and>
   fst (updateMatchStatus exEid exRid ''accept'' exAdmin exPending) = Ok \<and>
   fst (markResourceDelivered exRid exEid exAdmin exAccepted) = Failed (Thrown ValidationError)"
  by (simp add: exStore_round_trip exAccepted_run exDelivered_run)
     (simp add: matchRefOfEmergency_def matchRefOfResource_def exStore_def store_defs example_defs)

text \<open>
  C10 (amended). \<open>updateMatchStatus\<close> takes no lock and makes no conditional update;
  it does not read the status of the entry. Two \<open>accept\<close> requests for one pair that
  run one after the other, the first answered with 200, are both answered with 200:
  the second finds the entry accepted, writes it again, sets the resource to reserved
  again and appends a second accepted entry to the resource.
\<close>

theorem second_accept_succeeds:
  assumes "updateMatchStatus eid rid ''accept'' user s = (Ok, s1)"
    and "Emergency_findById eid s = Some e"
    and "findByRef mr_resource rid (e_matchedResources e) = Inr (Some m)"
    and "Resource_findById rid s = Some r"
    and "\<not> notAuthorized user' (e_user e) (e_assignedTo e)"
  shows "fst (acceptTwice eid rid user user' s) = (Ok, Ok) \<and>
         map_option r_status (Resource_findById rid (snd (acceptTwice eid rid user user' s)))
           = Some ''reserved'' \<and>
         map_option r_matchedEmergencies
             (Resource_findById rid (snd (acceptTwice eid rid user user' s)))
           = Some (r_matchedEmergencies r @
               [\<lparr>me_emergency = Some eid, me_status = Accepted, me_matchScore = mr_matchScore m\<rparr>,
                \<lparr>me_emergency = Some eid, me_status = Accepted, me_matchScore = mr_matchScore m\<rparr>])"
proof -
  note first = assms(1) and e = assms(2) and f = assms(3) and r = assms(4) and a' = assms(5)
  from first obtain e0 m0 r0 where e0: "Emergency_findById eid s = Some e0"
    and a: "\<not> notAuthorized user (e_user e0) (e_assignedTo e0)"
    and f0: "findByRef mr_resource rid (e_matchedResources e0) = Inr (Some m0)"
    and v: "Emergency_validate e0"
    and r0: "Resource_findById rid s = Some r0"
    and w: "Resource_validate (r0\<lparr>r_status := ''reserved''\<rparr>)"
    by (rule accept_Ok_inv)
  have same: "e0 = e" "m0 = m" "r0 = r" using e e0 f f0 r r0 by simp_all
  note a = a [unfolded same] and v = v [unfolded same] and w = w [unfolded same]
  have ei: "e_id e = Some eid" using e by (rule Emergency_findById_id)
  have ri: "r_id r = Some rid" using r by (rule Resource_findById_id)
  let ?x = "\<lparr>me_emergency = Some eid, me_status = Accepted, me_matchScore = mr_matchScore m\<rparr>"
  let ?e' = "e\<lparr>e_matchedResources :=
                updateFirst (\<lambda>match. mr_resource match = Some rid)
                  (\<lambda>match. match\<lparr>mr_status := Accepted\<rparr>) (e_matchedResources e)\<rparr>"
  let ?r' = "r\<lparr>r_status := ''reserved'', r_matchedEmergencies := r_matchedEmergencies r @ [?x]\<rparr>"
  let ?n = "\<lparr>nt_type = ''match_accepted'', nt_title = ''Resource Match Accepted'',
            nt_user = r_user r, nt_emergency = Some eid, nt_resource = Some rid\<rparr>"
  have s1: "s1 = (replaceResource ?r' (replaceEmergency ?e' s))
        \<lparr>notifications := notifications s @ [?n]\<rparr>"
    using accept_step [OF e a f v r w] first by (simp add: ei ri)
  have sc: "validScore (mr_matchScore m)" using v f by (rule Emergency_validate_score)
  have h: "Emergency_hydrate ?e' = ?e'"
    using Emergency_findById_hydrated [OF e] by (rule hydrate_matchedResources)
  have "Emergency_findById eid (replaceEmergency ?e' s) = Some ?e'"
    using Emergency_findById_replace [OF e, of ?e'] h by (simp add: ei)
  then have e1: "Emergency_findById eid s1 = Some ?e'" by (simp add: s1)
  have a1: "\<not> notAuthorized user' (e_user ?e') (e_assignedTo ?e')" using a' by simp
  have f1: "findByRef mr_resource rid (e_matchedResources ?e')
      = Inr (Some (m\<lparr>mr_status := Accepted\<rparr>))"
    using findByRef_updateFirst [OF f, of "\<lambda>match. match\<lparr>mr_status := Accepted\<rparr>"] by simp
  have v1: "Emergency_validate ?e'" using v by simp
  have "Resource_findById rid (replaceResource ?r' (replaceEmergency ?e' s)) = Some ?r'"
    by (rule Resource_findById_replace) (simp_all add: r ri)
  then have r1: "Resource_findById rid s1 = Some ?r'" by (simp add: s1)
  have w1: "Resource_validate (?r'\<lparr>r_status := ''reserved''\<rparr>)"
    using w sc by (simp add: Resource_validate_def)
  let ?r'' = "?r'\<lparr>r_status := ''reserved'',
      r_matchedEmergencies := r_matchedEmergencies ?r' @
         [\<lparr>me_emergency = e_id ?e', me_status = Accepted,
           me_matchScore = mr_matchScore (m\<lparr>mr_status := Accepted\<rparr>)\<rparr>]\<rparr>"
  let ?s2 = "(replaceResource ?r'' (replaceEmergency
            (?e'\<lparr>e_matchedResources :=
                updateFirst (\<lambda>match. mr_resource match = Some rid)
                  (\<lambda>match. match\<lparr>mr_status := Accepted\<rparr>) (e_matchedResources ?e')\<rparr>) s1))
        \<lparr>notifications := notifications s1 @
          [\<lparr>nt_type = ''match_accepted'', nt_title = ''Resource Match Accepted'',
            nt_user = r_user ?r', nt_emergency = e_id ?e', nt_resource = r_id ?r'\<rparr>]\<rparr>"
  have second: "updateMatchStatus eid rid ''accept'' user' s1 = (Ok, ?s2)"
    using accept_step [OF e1 a1 f1 v1 r1 w1] .
  have "Resource_findById rid (replaceResource ?r'' (replaceEmergency
            (?e'\<lparr>e_matchedResources :=
                updateFirst (\<lambda>match. mr_resource match = Some rid)
                  (\<lambda>match. match\<lparr>mr_status := Accepted\<rparr>) (e_matchedResources ?e')\<rparr>) s1))
        = Some ?r''"
    by (rule Resource_findById_replace) (simp_all add: r1 ri)
  then have r2: "Resource_findById rid ?s2 = Some ?r''" by simp
  have run: "acceptTwice eid rid user user' s = ((Ok, Ok), ?s2)"
    by (simp add: acceptTwice_def first second)
  show ?thesis unfolding run using r2 by (simp add: ei)
qed

theorem second_accept_succeeds_witness:
  "updateMatchStatus exEid exRid ''accept'' exAdmin exPending = (Ok, exAccepted) \<and>
   fst (acceptTwice exEid exRid exAdmin exAdmin exPending) = (Ok, Ok) \<and>
   map_option r_status
     (Resource_findById exRid (snd (acceptTwice exEid exRid exAdmin exAdmin exPending)))
     = Some ''reserved'' \<and>
   map_option r_matchedEmergencies
     (Resource_findById exRid (snd (acceptTwice exEid exRid exAdmin exAdmin exPending)))
     = Some [\<lparr>me_emergency = Some exEid, me_status = Accepted, me_matchScore = Num 80\<rparr>,
             \<lparr>me_emergency = Some exEid, me_status = Accepted, me_matchScore = Num 80\<rparr>]"
proof -
  let ?e = "exEmergency\<lparr>e_quantity := NaN, e_matchedResources :=
              [\<lparr>mr_resource = Some exRid, mr_status = Pending, mr_matchScore = Num 80\<rparr>]\<rparr>"
  let ?m = "\<lparr>mr_resource = Some exRid, mr_status = Pending, mr_matchScore = Num 80\<rparr>"
  have a: "updateMatchStatus exEid exRid ''accept'' exAdmin exPending = (Ok, exAccepted)"
    by (simp add: exAccepted_run exAccepted_eq)
  have e: "Emergency_findById exEid exPending = Some ?e"
    by (simp add: exPending_def Emergency_findById_def Emergency_hydrate_def example_defs)
  have f: "findByRef mr_resource exRid (e_matchedResources ?e) = Inr (Some ?m)" by simp
  have r: "Resource_findById exRid exPending = Some exResource"
    by (simp add: exPending_def Resource_findById_def example_defs)
  have n: "r_matchedEmergencies exResource = []" by (simp add: exResource_def)
  show ?thesis
    using second_accept_succeeds [OF a e f r exAdmin_authorized] a by (simp add: n)
qed

text \<open>
  C10 as stated fails on the schedule in which the two calls do not overlap: both
  \<open>accept\<close> requests on the pending pair of \<open>exPending\<close> are answered with 200, and
  the resource ends with two accepted entries for the emergency.
\<close>

theorem two_accepts_both_succeed_counterexample:
  "map_option mr_status (matchRefOfEmergency exPending exEid exRid) = Some Pending \<and>
   fst (acceptTwice exEid exRid exAdmin exAdmin exPending) = (Ok, Ok) \<and>
   map_option (\<lambda>r. map me_status (r_matchedEmergencies r))
     (Resource_findById exRid (snd (acceptTwice exEid exRid exAdmin exAdmin exPending)))
     = Some [Accepted, Accepted]"
  by (simp add: exTwice_run)
     (simp add: matchRefOfEmergency_def exPending_def store_defs example_defs)

end
